theory Spec2Isabelle
  imports Complex_Main "HOL-Library.Word" "HOL-Library.Char_ord" "HOL-Library.List_Lexorder"
begin

section \<open>GenWeightsTableProducer: generator weight tables and run counters\<close>

text \<open>
  A shallow embedding of \<^verbatim>\<open>plugins/GenWeightsTableProducer.cc\<close>.

  Floating point is kept abstract. The C++ types \<^verbatim>\<open>double\<close>, \<^verbatim>\<open>long double\<close> and
  \<^verbatim>\<open>float\<close> are the type variables \<open>'d\<close>, \<open>'l\<close> and \<open>'f\<close>; their arithmetic is the
  arithmetic of the syntactic type classes (no algebraic law is assumed), and the
  conversions between them (\<open>widen\<close> from double to long double, \<open>narrow\<close> from double to
  float) are parameters. Every theorem below therefore holds for any floating-point
  semantics, IEEE 754 included.

  Exceptions and undefined behaviour are values of the type \<open>error\<close>, returned in the left
  summand of a result.
\<close>

datatype error =
    cms_Exception string string  \<comment> \<open>\<^verbatim>\<open>cms::Exception(category, message)\<close>\<close>
  | invalid_argument             \<comment> \<open>\<^verbatim>\<open>std::invalid_argument\<close>, from \<^verbatim>\<open>std::stof\<close> and \<^verbatim>\<open>std::stoi\<close>\<close>
  | out_of_range                 \<comment> \<open>\<^verbatim>\<open>std::out_of_range\<close>, from \<^verbatim>\<open>std::stof\<close> and \<^verbatim>\<open>std::stoi\<close>\<close>
  | out_of_bounds                \<comment> \<open>\<^verbatim>\<open>operator[]\<close> of a vector outside \<^verbatim>\<open>[0, size())\<close>: undefined behaviour\<close>
  | invalid_handle               \<comment> \<open>dereferencing an \<^verbatim>\<open>edm::Handle\<close> that holds no product\<close>

subsection \<open>Counter: the running sums of weights\<close>

record 'l Counter =
  num :: "64 word"  \<comment> \<open>\<^verbatim>\<open>long long\<close>, two's complement\<close>
  sumw :: 'l
  sumw2 :: 'l
  sumPDF :: "'l list"
  sumScale :: "'l list"
  sumNamed :: "'l list"

text \<open>The constructor \<^verbatim>\<open>Counter()\<close>.\<close>

definition Counter_new :: "('l::zero) Counter" where
  "Counter_new = \<lparr>num = 0, sumw = 0, sumw2 = 0, sumPDF = [], sumScale = [], sumNamed = []\<rparr>"

definition clear :: "('l::zero) Counter \<Rightarrow> 'l Counter" where
  "clear c = c\<lparr>num := 0, sumw := 0, sumw2 := 0, sumPDF := [], sumScale := [], sumNamed := []\<rparr>"

definition incGenOnly :: "('d::times \<Rightarrow> 'l::plus) \<Rightarrow> 'd \<Rightarrow> 'l Counter \<Rightarrow> 'l Counter" where
  "incGenOnly widen w c =
     c\<lparr>num := num c + 1, sumw := sumw c + widen w, sumw2 := sumw2 c + widen (w * w)\<rparr>"

text \<open>
  The loop \<^verbatim>\<open>for (unsigned int i = 0, n = ...; i < n; ++i) tot[i] += incs[i];\<close>.
  Both element accesses are unchecked in C++; an index outside either vector is the
  error \<open>out_of_bounds\<close>.
\<close>

function addLoop :: "nat \<Rightarrow> nat \<Rightarrow> ('l::plus) list \<Rightarrow> 'l list \<Rightarrow> error + 'l list" where
  "addLoop i n tot incs =
     (if i < n then
        (if i < length tot \<and> i < length incs
         then addLoop (i + 1) n (tot[i := tot ! i + incs ! i]) incs
         else Inl out_of_bounds)
      else Inr tot)"
  by pat_completeness auto
termination
  by (relation "measure (\<lambda>(i, n, tot, incs). n - i)") auto

declare addLoop.simps [simp del]

text \<open>
  One variation block of \<^verbatim>\<open>incLHE\<close>:
  \<^verbatim>\<open>if (!w.empty()) { if (tot.empty()) tot.resize(w.size(), 0); for (...) tot[i] += (w0 * w[i]); }\<close>
\<close>

definition incVariation ::
  "('d::times \<Rightarrow> 'l::{zero,plus}) \<Rightarrow> 'd \<Rightarrow> 'd list \<Rightarrow> 'l list \<Rightarrow> error + 'l list" where
  "incVariation widen w0 w tot =
     (if w \<noteq> [] then
        addLoop 0 (length w) (if tot = [] then replicate (length w) 0 else tot)
          (map (\<lambda>v. widen (w0 * v)) w)
      else Inr tot)"

definition incLHE ::
  "('d::times \<Rightarrow> 'l::{zero,plus}) \<Rightarrow> 'd \<Rightarrow> 'd list \<Rightarrow> 'd list \<Rightarrow> 'd list \<Rightarrow> 'l Counter
     \<Rightarrow> error + 'l Counter" where
  "incLHE widen w0 wScale wPDF wNamed c =
     (let c1 = incGenOnly widen w0 c in
      case incVariation widen w0 wScale (sumScale c1) of Inl e \<Rightarrow> Inl e | Inr sS \<Rightarrow>
      case incVariation widen w0 wPDF (sumPDF c1) of Inl e \<Rightarrow> Inl e | Inr sP \<Rightarrow>
      case incVariation widen w0 wNamed (sumNamed c1) of Inl e \<Rightarrow> Inl e | Inr sN \<Rightarrow>
      Inr (c1\<lparr>sumPDF := sP, sumScale := sS, sumNamed := sN\<rparr>))"

text \<open>
  \<^verbatim>\<open>merge\<close>: the scalars are added, a local empty vector is resized to the other's length,
  and then each loop runs over the \<^emph>\<open>local\<close> length \<^verbatim>\<open>n = sumScale.size()\<close> and reads
  \<^verbatim>\<open>other.sumScale[i]\<close>.
\<close>

definition resizeLike :: "('l::zero) list \<Rightarrow> 'l list \<Rightarrow> 'l list" where
  "resizeLike mine theirs =
     (if mine = [] \<and> theirs \<noteq> [] then replicate (length theirs) 0 else mine)"

definition merge :: "('l::{zero,plus}) Counter \<Rightarrow> 'l Counter \<Rightarrow> error + 'l Counter" where
  "merge c other =
     (let c1 = c\<lparr>num := num c + num other, sumw := sumw c + sumw other,
                  sumw2 := sumw2 c + sumw2 other\<rparr>;
          s1 = resizeLike (sumScale c1) (sumScale other);
          p1 = resizeLike (sumPDF c1) (sumPDF other);
          n1 = resizeLike (sumNamed c1) (sumNamed other)
      in
      case addLoop 0 (length s1) s1 (sumScale other) of Inl e \<Rightarrow> Inl e | Inr sS \<Rightarrow>
      case addLoop 0 (length p1) p1 (sumPDF other) of Inl e \<Rightarrow> Inl e | Inr sP \<Rightarrow>
      case addLoop 0 (length n1) n1 (sumNamed other) of Inl e \<Rightarrow> Inl e | Inr sN \<Rightarrow>
      Inr (c1\<lparr>sumPDF := sP, sumScale := sS, sumNamed := sN\<rparr>))"

subsection \<open>The producer: configuration and construction\<close>

record ParameterSet =
  genEvent :: string
  lheInfo :: string
  preferredPDFs :: "32 word list"
  namedWeightIDs :: "string list"
  namedWeightLabels :: "string list"
  debug :: "bool option"  \<comment> \<open>untracked, default \<^verbatim>\<open>false\<close>\<close>

text \<open>The members of the class; the trailing underscore of a member's name is written as a prime.\<close>

record Producer =
  genTag' :: string
  lheLabel' :: string
  preferredPDFLHAIDs' :: "32 word list"
  namedWeightIDs' :: "string list"
  namedWeightLabels' :: "string list"

text \<open>The three \<^verbatim>\<open>mutable std::atomic<bool>\<close> members.\<close>

record Flags =
  debug' :: bool
  debugRun' :: bool
  hasIssuedWarning' :: bool

text \<open>\<^verbatim>\<open>std::atomic<bool>::exchange(v)\<close>: the value before, and the value stored.\<close>

definition exchange :: "bool \<Rightarrow> bool \<Rightarrow> bool \<times> bool" where
  "exchange flag v = (flag, v)"

definition GenWeightsTableProducer :: "ParameterSet \<Rightarrow> error + (Producer \<times> Flags)" where
  "GenWeightsTableProducer params =
     (let dbg = (case debug params of None \<Rightarrow> False | Some b \<Rightarrow> b);
          p = \<lparr>genTag' = genEvent params, lheLabel' = lheInfo params,
               preferredPDFLHAIDs' = preferredPDFs params,
               namedWeightIDs' = namedWeightIDs params,
               namedWeightLabels' = namedWeightLabels params\<rparr>;
          fl = \<lparr>debug' = dbg, debugRun' = dbg, hasIssuedWarning' = False\<rparr>
      in
      if length (namedWeightIDs' p) \<noteq> length (namedWeightLabels' p)
      then Inl (cms_Exception ''Configuration''
                  ''Size mismatch between namedWeightIDs & namedWeightLabels'')
      else Inr (p, fl))"

subsection \<open>The run cache: the choice of LHE weights\<close>

record DynamicWeightChoice =
  scaleWeightIDs :: "string list"
  scaleWeightsDoc :: string
  pdfWeightIDs :: "string list"
  pdfWeightsDoc :: string

text \<open>\<^verbatim>\<open>std::make_shared<DynamicWeightChoice>()\<close>: empty vectors and empty strings.\<close>

definition DynamicWeightChoice_new :: DynamicWeightChoice where
  "DynamicWeightChoice_new =
     \<lparr>scaleWeightIDs = [], scaleWeightsDoc = [], pdfWeightIDs = [], pdfWeightsDoc = []\<rparr>"

subsection \<open>Flat tables\<close>

text \<open>
  Modelled from the spec: the class \<^verbatim>\<open>FlatTable\<close> of
  \<^verbatim>\<open>PhysicsTools/NanoAOD/interface/FlatTable.h\<close>, which is not among the sources. The spec
  describes a table by its name, its number of rows, whether it is a single-row table, a
  documentation string and its columns; all numeric table values are single-precision
  floats, so a column stores the values narrowed from \<^verbatim>\<open>double\<close> to \<^verbatim>\<open>float\<close>.
\<close>

record 'f Column =
  colName :: string
  colValues :: "'f list"
  colDoc :: string

record 'f FlatTable =
  rows :: nat
  tableName :: string
  singleton :: bool
  tableDoc :: string
  columns :: "'f Column list"

definition FlatTable_new :: "nat \<Rightarrow> string \<Rightarrow> bool \<Rightarrow> 'f FlatTable" where
  "FlatTable_new n name single =
     \<lparr>rows = n, tableName = name, singleton = single, tableDoc = [], columns = []\<rparr>"

definition setDoc :: "string \<Rightarrow> 'f FlatTable \<Rightarrow> 'f FlatTable" where
  "setDoc d t = t\<lparr>tableDoc := d\<rparr>"

definition addColumn ::
  "('d \<Rightarrow> 'f) \<Rightarrow> string \<Rightarrow> 'd list \<Rightarrow> string \<Rightarrow> 'f FlatTable \<Rightarrow> 'f FlatTable" where
  "addColumn narrow name vals d t =
     t\<lparr>columns := columns t @ [\<lparr>colName = name, colValues = map narrow vals, colDoc = d\<rparr>]\<rparr>"

definition addColumnValue ::
  "('d \<Rightarrow> 'f) \<Rightarrow> string \<Rightarrow> 'd \<Rightarrow> string \<Rightarrow> 'f FlatTable \<Rightarrow> 'f FlatTable" where
  "addColumnValue narrow name val d t = addColumn narrow name [val] d t"

subsection \<open>Events\<close>

text \<open>
  An \<^verbatim>\<open>LHEEventProduct\<close> gives \<^verbatim>\<open>originalXWGTUP()\<close> and the list \<^verbatim>\<open>weights()\<close> of
  \<^verbatim>\<open>{id, wgt}\<close> records, here pairs. An event holds the \<^verbatim>\<open>weight()\<close> of its
  \<^verbatim>\<open>GenEventInfoProduct\<close> and its LHE product, each when it is there.
\<close>

record 'd LHEEventProduct =
  originalXWGTUP :: 'd
  weights :: "(string \<times> 'd) list"

record 'd Event =
  genEventInfo :: "'d option"
  lheEventProduct :: "'d LHEEventProduct option"

text \<open>
  What the module changes while it processes events: the counter of each stream
  (\<^verbatim>\<open>streamCache(id)\<close>), the atomic flags, and the warnings sent to the message logger.
\<close>

record 'l ModuleState =
  streamCache :: "nat \<Rightarrow> 'l Counter"
  flags :: Flags
  warnings :: "string list"

record 'f EventTables =
  genWeightTab :: "'f FlatTable"
  lheScaleTab :: "'f FlatTable"
  lhePdfTab :: "'f FlatTable"
  lheNamedTab :: "'f FlatTable"

subsection \<open>Filling the LHE tables\<close>

text \<open>\<^verbatim>\<open>std::find(ids.begin(), ids.end(), x) - ids.begin()\<close>, or \<open>None\<close> for \<^verbatim>\<open>ids.end()\<close>.\<close>

fun std_find :: "'a list \<Rightarrow> 'a \<Rightarrow> nat option" where
  "std_find [] x = None"
| "std_find (y # ys) x = (if y = x then Some 0 else map_option Suc (std_find ys x))"

text \<open>
  \<^verbatim>\<open>auto m = std::find(ids...); if (m != ids.end()) w[m - ids.begin()] = weight.wgt / w0;\<close>
\<close>

definition setMatch ::
  "string list \<Rightarrow> ('d::inverse) \<Rightarrow> string \<times> 'd \<Rightarrow> 'd list \<Rightarrow> 'd list" where
  "setMatch ids w0 weight w =
     (case std_find ids (fst weight) of
        Some k \<Rightarrow> w[k := snd weight / w0]
      | None \<Rightarrow> w)"

text \<open>The loop \<^verbatim>\<open>for (auto & weight : lheProd.weights())\<close>.\<close>

fun weightsLoop ::
  "string list \<Rightarrow> string list \<Rightarrow> string list \<Rightarrow> ('d::inverse) \<Rightarrow> (string \<times> 'd) list
     \<Rightarrow> 'd list \<times> 'd list \<times> 'd list \<Rightarrow> 'd list \<times> 'd list \<times> 'd list" where
  "weightsLoop sIDs pIDs nIDs w0 [] acc = acc"
| "weightsLoop sIDs pIDs nIDs w0 (weight # rest) (wScale, wPDF, wNamed) =
     weightsLoop sIDs pIDs nIDs w0 rest
       (setMatch sIDs w0 weight wScale, setMatch pIDs w0 weight wPDF,
        setMatch nIDs w0 weight wNamed)"

text \<open>
  The loop over the named weights,
  \<^verbatim>\<open>outNamed->addColumnValue<float>(namedWeightLabels_[i], wNamed[i], "LHE weight for id "+namedWeightIDs_[i]+", relative to nominal", ...)\<close>.
\<close>

function namedLoop ::
  "('d \<Rightarrow> 'f) \<Rightarrow> Producer \<Rightarrow> 'd list \<Rightarrow> nat \<Rightarrow> nat \<Rightarrow> 'f FlatTable \<Rightarrow> error + 'f FlatTable" where
  "namedLoop narrow P wNamed i n outNamed =
     (if i < n then
        (if i < length (namedWeightLabels' P) \<and> i < length wNamed
            \<and> i < length (namedWeightIDs' P)
         then namedLoop narrow P wNamed (i + 1) n
                (addColumnValue narrow (namedWeightLabels' P ! i) (wNamed ! i)
                   (''LHE weight for id '' @ namedWeightIDs' P ! i @ '', relative to nominal'')
                   outNamed)
         else Inl out_of_bounds)
      else Inr outNamed)"
  by pat_completeness auto
termination
  by (relation "measure (\<lambda>(narrow, P, wNamed, i, n, outNamed). n - i)") auto

declare namedLoop.simps [simp del]

text \<open>The three weight vectors that \<^verbatim>\<open>fillLHEWeightTables\<close> computes before it builds the tables.\<close>

definition lheWeightVectors ::
  "Producer \<Rightarrow> DynamicWeightChoice \<Rightarrow> ('d::{one,inverse}) LHEEventProduct
     \<Rightarrow> 'd list \<times> 'd list \<times> 'd list" where
  "lheWeightVectors P weightChoice lheProd =
     weightsLoop (scaleWeightIDs weightChoice) (pdfWeightIDs weightChoice) (namedWeightIDs' P)
       (originalXWGTUP lheProd) (weights lheProd)
       (replicate (length (scaleWeightIDs weightChoice)) 1,
        replicate (length (pdfWeightIDs weightChoice)) 1,
        replicate (length (namedWeightIDs' P)) 1)"

definition fillLHEWeightTables ::
  "('d \<Rightarrow> 'l) \<Rightarrow> ('d \<Rightarrow> 'f) \<Rightarrow> Producer \<Rightarrow> ('l::{zero,plus}) Counter \<Rightarrow> DynamicWeightChoice
     \<Rightarrow> ('d::{one,times,inverse}) \<Rightarrow> 'd LHEEventProduct \<Rightarrow> Flags
     \<Rightarrow> error + ('l Counter \<times> Flags \<times> 'f FlatTable \<times> 'f FlatTable \<times> 'f FlatTable)" where
  "fillLHEWeightTables widen narrow P counter weightChoice genWeight lheProd fl =
     (let (lheDebug, d) = exchange (debug' fl) False;
          fl1 = fl\<lparr>debug' := d\<rparr>;
          w0 = originalXWGTUP lheProd;
          (wScale, wPDF, wNamed) = lheWeightVectors P weightChoice lheProd;
          outScale = addColumn narrow [] wScale (scaleWeightsDoc weightChoice)
                       (FlatTable_new (length wScale) ''LHEScaleWeight'' False);
          outPdf = addColumn narrow [] wPDF (pdfWeightsDoc weightChoice)
                     (FlatTable_new (length wPDF) ''LHEPdfWeight'' False);
          outNamed0 = addColumnValue narrow ''originalXWGTUP'' (originalXWGTUP lheProd)
                        ''Nominal event weight in the LHE file''
                        (FlatTable_new 1 ''LHEWeight'' True)
      in
      case namedLoop narrow P wNamed 0 (length wNamed) outNamed0 of Inl e \<Rightarrow> Inl e
      | Inr outNamed \<Rightarrow>
      case incLHE widen genWeight wScale wPDF wNamed counter of Inl e \<Rightarrow> Inl e
      | Inr counter1 \<Rightarrow> Inr (counter1, fl1, outScale, outPdf, outNamed))"

subsection \<open>Processing one event\<close>

definition produce ::
  "('d \<Rightarrow> 'l) \<Rightarrow> ('d \<Rightarrow> 'f) \<Rightarrow> Producer \<Rightarrow> DynamicWeightChoice \<Rightarrow> nat
     \<Rightarrow> ('d::{one,times,inverse}) Event \<Rightarrow> ('l::{zero,plus}) ModuleState
     \<Rightarrow> error + ('f EventTables \<times> 'l ModuleState)" where
  "produce widen narrow P weightChoice sid iEvent st =
     (let counter = streamCache st sid in
      case genEventInfo iEvent of None \<Rightarrow> Inl invalid_handle
      | Some weight \<Rightarrow>
      let out = addColumnValue narrow [] weight ''generator weight''
                  (setDoc ''generator weight'' (FlatTable_new 1 ''genWeight'' True))
      in
      case lheEventProduct iEvent of
        Some lheProd \<Rightarrow>
          (case fillLHEWeightTables widen narrow P counter weightChoice weight lheProd
                  (flags st) of
             Inl e \<Rightarrow> Inl e
           | Inr (counter1, fl1, lheScale, lhePdf, lheNamed) \<Rightarrow>
               Inr (\<lparr>genWeightTab = out, lheScaleTab = lheScale, lhePdfTab = lhePdf,
                     lheNamedTab = lheNamed\<rparr>,
                    st\<lparr>streamCache := (streamCache st)(sid := counter1), flags := fl1\<rparr>))
      | None \<Rightarrow>
          (let counter1 = incGenOnly widen weight counter;
               lheScale = FlatTable_new 1 ''LHEScaleWeights'' True;
               lhePdf = FlatTable_new 1 ''LHEPdfWeights'' True;
               lheNamed = FlatTable_new 1 ''LHENamedWeights'' True;
               (issued, h) = exchange (hasIssuedWarning' (flags st)) False;
               fl1 = (flags st)\<lparr>hasIssuedWarning' := h\<rparr>;
               log1 = (if \<not> issued
                       then warnings st @ [''No LHEEventProduct, so there will be no LHE Tables\<newline>'']
                       else warnings st)
           in Inr (\<lparr>genWeightTab = out, lheScaleTab = lheScale, lhePdfTab = lhePdf,
                    lheNamedTab = lheNamed\<rparr>,
                   st\<lparr>streamCache := (streamCache st)(sid := counter1), flags := fl1,
                      warnings := log1\<rparr>)))"

text \<open>
  The events of a run, each on its stream, in the order in which their warning latches
  are exchanged (the exchange is atomic, so there is such an order).
\<close>

fun produceAll ::
  "('d \<Rightarrow> 'l) \<Rightarrow> ('d \<Rightarrow> 'f) \<Rightarrow> Producer \<Rightarrow> DynamicWeightChoice
     \<Rightarrow> (nat \<times> ('d::{one,times,inverse}) Event) list \<Rightarrow> ('l::{zero,plus}) ModuleState
     \<Rightarrow> error + ('f EventTables list \<times> 'l ModuleState)" where
  "produceAll widen narrow P weightChoice [] st = Inr ([], st)"
| "produceAll widen narrow P weightChoice ((sid, iEvent) # evs) st =
     (case produce widen narrow P weightChoice sid iEvent st of Inl e \<Rightarrow> Inl e
      | Inr (tabs, st1) \<Rightarrow>
      case produceAll widen narrow P weightChoice evs st1 of Inl e \<Rightarrow> Inl e
      | Inr (tabss, st2) \<Rightarrow> Inr (tabs # tabss, st2))"

section \<open>The run header\<close>

subsection \<open>Regular expressions\<close>

text \<open>
  The four \<^verbatim>\<open>std::regex\<close> patterns of \<^verbatim>\<open>globalBeginRun\<close> use literal text, the classes
  \<^verbatim>\<open>.\<close>, \<^verbatim>\<open>\s\<close>, \<^verbatim>\<open>\S\<close> and \<^verbatim>\<open>\d\<close>, the greedy quantifiers \<^verbatim>\<open>*\<close>, \<^verbatim>\<open>+\<close> and \<^verbatim>\<open>?\<close>, and capture
  groups. The matcher below is the backtracking matcher of the ECMAScript grammar (the
  default of \<^verbatim>\<open>std::regex\<close>) for these constructs: alternatives are tried in the order of
  their priority, a greedy quantifier tries one more iteration before it tries to go on,
  and an iteration that consumes nothing is not taken.
\<close>

datatype rx =
    Eps
  | Str string       \<comment> \<open>literal text\<close>
  | Dot              \<comment> \<open>\<^verbatim>\<open>.\<close>: any character but a line terminator\<close>
  | Space            \<comment> \<open>\<^verbatim>\<open>\s\<close>\<close>
  | NonSpace         \<comment> \<open>\<^verbatim>\<open>\S\<close>\<close>
  | Digit            \<comment> \<open>\<^verbatim>\<open>\d\<close>\<close>
  | Seq rx rx
  | Star rx          \<comment> \<open>\<^verbatim>\<open>r*\<close>\<close>
  | Opt rx           \<comment> \<open>\<^verbatim>\<open>r?\<close>\<close>
  | Group nat rx     \<comment> \<open>the capture group of that number\<close>

abbreviation Plus :: "rx \<Rightarrow> rx" where
  "Plus r \<equiv> Seq r (Star r)"

fun cat :: "rx list \<Rightarrow> rx" where
  "cat [] = Eps"
| "cat [r] = r"
| "cat (r # rs) = Seq r (cat rs)"

definition is_space :: "char \<Rightarrow> bool" where
  "is_space x = (x \<in> set [CHR '' '', CHR 0x09, CHR 0x0A, CHR 0x0B, CHR 0x0C, CHR 0x0D])"

definition is_digit :: "char \<Rightarrow> bool" where
  "is_digit x = (x \<in> set ''0123456789'')"

definition is_line_terminator :: "char \<Rightarrow> bool" where
  "is_line_terminator x = (x \<in> set [CHR 0x0A, CHR 0x0D])"

text \<open>The capture groups of a match; \<^verbatim>\<open>groups.str(n)\<close> of a group that took no part is empty.\<close>

type_synonym smatch = "nat \<Rightarrow> string"

fun matchOne :: "(char \<Rightarrow> bool) \<Rightarrow> string \<Rightarrow> smatch \<Rightarrow> (string \<Rightarrow> smatch \<Rightarrow> smatch option)
    \<Rightarrow> smatch option" where
  "matchOne ok [] c k = None"
| "matchOne ok (x # t) c k = (if ok x then k t c else None)"

fun rx_match :: "rx \<Rightarrow> string \<Rightarrow> smatch \<Rightarrow> (string \<Rightarrow> smatch \<Rightarrow> smatch option)
    \<Rightarrow> smatch option" where
  "rx_match Eps s c k = k s c"
| "rx_match (Str w) s c k = (if take (length w) s = w then k (drop (length w) s) c else None)"
| "rx_match Dot s c k = matchOne (\<lambda>x. \<not> is_line_terminator x) s c k"
| "rx_match Space s c k = matchOne is_space s c k"
| "rx_match NonSpace s c k = matchOne (\<lambda>x. \<not> is_space x) s c k"
| "rx_match Digit s c k = matchOne is_digit s c k"
| "rx_match (Seq a b) s c k = rx_match a s c (\<lambda>s1 c1. rx_match b s1 c1 k)"
| "rx_match (Star r) s c k =
     (case rx_match r s c
             (\<lambda>s1 c1. if length s1 < length s then rx_match (Star r) s1 c1 k else None) of
        Some res \<Rightarrow> Some res
      | None \<Rightarrow> k s c)"
| "rx_match (Opt r) s c k =
     (case rx_match r s c k of
        Some res \<Rightarrow> Some res
      | None \<Rightarrow> k s c)"
| "rx_match (Group i r) s c k =
     rx_match r s c (\<lambda>s1 c1. k s1 (c1(i := take (length s - length s1) s)))"

text \<open>
  \<^verbatim>\<open>std::regex_search(line, groups, re)\<close>: the match at the leftmost position where there is
  one, or \<open>None\<close>.
\<close>

fun regex_search :: "rx \<Rightarrow> string \<Rightarrow> smatch option" where
  "regex_search re [] = rx_match re [] (\<lambda>_. []) (\<lambda>s1 c1. Some c1)"
| "regex_search re (x # t) =
     (case rx_match re (x # t) (\<lambda>_. []) (\<lambda>s1 c1. Some c1) of
        Some res \<Rightarrow> Some res
      | None \<Rightarrow> regex_search re t)"

text \<open>The double quote of the patterns and of the header lines.\<close>

abbreviation dq :: char where
  "dq \<equiv> CHR 0x22"

text \<open>
  \<^verbatim>\<open><weightgroup\s+combine="(.*)"\s+name="(.*)"\s*>\<close>
\<close>

definition weightgroup :: rx where
  "weightgroup =
     cat [Str ''<weightgroup'', Plus Space, Str (''combine='' @ [dq]), Group 1 (Star Dot),
          Str [dq], Plus Space, Str (''name='' @ [dq]), Group 2 (Star Dot), Str [dq],
          Star Space, Str ''>'']"

definition endweightgroup :: rx where
  "endweightgroup = Str ''</weightgroup>''"

text \<open>
  \<^verbatim>\<open><weight\s+id="(\d+)">\s*(muR=(\S+)\s+muF=(\S+)(\s+.*)?)</weight>\<close>
\<close>

definition scalew :: rx where
  "scalew =
     cat [Str ''<weight'', Plus Space, Str (''id='' @ [dq]), Group 1 (Plus Digit),
          Str (dq # ''>''), Star Space,
          Group 2 (cat [Str ''muR='', Group 3 (Plus NonSpace), Plus Space, Str ''muF='',
                        Group 4 (Plus NonSpace), Opt (Group 5 (Seq (Plus Space) (Star Dot)))]),
          Str ''</weight>'']"

text \<open>
  \<^verbatim>\<open><weight\s+id="(\d+)">\s*PDF set\s*=\s*(\d+)\s*</weight>\<close>
\<close>

definition pdfw :: rx where
  "pdfw =
     cat [Str ''<weight'', Plus Space, Str (''id='' @ [dq]), Group 1 (Plus Digit),
          Str (dq # ''>''), Star Space, Str ''PDF set'', Star Space, Str ''='', Star Space,
          Group 2 (Plus Digit), Star Space, Str ''</weight>'']"

subsection \<open>The temporary objects of the parser\<close>

text \<open>
  What the parser needs of \<^verbatim>\<open>float\<close>: \<^verbatim>\<open>std::stof\<close>, which throws
  \<^verbatim>\<open>std::invalid_argument\<close> or \<^verbatim>\<open>std::out_of_range\<close>, and the comparisons \<^verbatim>\<open>==\<close> and \<^verbatim>\<open><\<close>.
\<close>

record 'f float_ops =
  stof :: "string \<Rightarrow> error + 'f"
  float_eq :: "'f \<Rightarrow> 'f \<Rightarrow> bool"
  float_less :: "'f \<Rightarrow> 'f \<Rightarrow> bool"

record 'f ScaleVarWeight =
  wid :: string
  label :: string
  scales :: "'f \<times> 'f"

text \<open>
  The constructor. C++ does not fix the order of the two calls of \<^verbatim>\<open>std::stof\<close> in
  \<^verbatim>\<open>scales(std::stof(muR), std::stof(muF))\<close>; GCC converts \<^verbatim>\<open>muF\<close> first, and so does the
  model. The order shows only in which exception is reported when both calls throw.
\<close>

definition ScaleVarWeight_new ::
  "'f float_ops \<Rightarrow> string \<Rightarrow> string \<Rightarrow> string \<Rightarrow> string \<Rightarrow> error + 'f ScaleVarWeight" where
  "ScaleVarWeight_new ops ident text muR muF =
     (case stof ops muF of Inl e \<Rightarrow> Inl e | Inr f \<Rightarrow>
      case stof ops muR of Inl e \<Rightarrow> Inl e | Inr r \<Rightarrow>
      Inr \<lparr>wid = ident, label = text, scales = (r, f)\<rparr>)"

text \<open>\<^verbatim>\<open>operator==\<close> and \<^verbatim>\<open>operator<\<close> of \<^verbatim>\<open>std::pair<float,float>\<close>.\<close>

definition pair_eq :: "'f float_ops \<Rightarrow> 'f \<times> 'f \<Rightarrow> 'f \<times> 'f \<Rightarrow> bool" where
  "pair_eq ops a b = (float_eq ops (fst a) (fst b) \<and> float_eq ops (snd a) (snd b))"

definition pair_less :: "'f float_ops \<Rightarrow> 'f \<times> 'f \<Rightarrow> 'f \<times> 'f \<Rightarrow> bool" where
  "pair_less ops a b =
     (float_less ops (fst a) (fst b)
      \<or> (\<not> float_less ops (fst b) (fst a) \<and> float_less ops (snd a) (snd b)))"

text \<open>
  \<^verbatim>\<open>ScaleVarWeight::operator<\<close>. The identifiers are \<^verbatim>\<open>std::string\<close>s, which \<^verbatim>\<open><\<close> compares
  character by character.
\<close>

definition ScaleVarWeight_less ::
  "'f float_ops \<Rightarrow> 'f ScaleVarWeight \<Rightarrow> 'f ScaleVarWeight \<Rightarrow> bool" where
  "ScaleVarWeight_less ops a other =
     (if pair_eq ops (scales a) (scales other) then wid a < wid other
      else pair_less ops (scales a) (scales other))"

record PDFSetWeights =
  wids :: "string list"
  lhaIDs :: "32 word \<times> 32 word"

definition PDFSetWeights_new :: "string \<Rightarrow> 32 word \<Rightarrow> PDFSetWeights" where
  "PDFSetWeights_new w lhaID = \<lparr>wids = [w], lhaIDs = (lhaID, lhaID)\<rparr>"

definition maybe_add :: "string \<Rightarrow> 32 word \<Rightarrow> PDFSetWeights \<Rightarrow> bool \<times> PDFSetWeights" where
  "maybe_add w lhaID pw =
     (if lhaID = snd (lhaIDs pw) + 1
      then (True, pw\<lparr>lhaIDs := (fst (lhaIDs pw), snd (lhaIDs pw) + 1), wids := wids pw @ [w]\<rparr>)
      else (False, pw))"

subsection \<open>Numbers and text\<close>

text \<open>
  \<^verbatim>\<open>std::stoi\<close> on a string that begins with a digit, which is what the group \<^verbatim>\<open>(\d+)\<close> of
  the pattern gives it: the value of the leading digits, or \<^verbatim>\<open>std::out_of_range\<close> when it
  exceeds \<^verbatim>\<open>INT_MAX\<close>.
\<close>

definition digit_val :: "char \<Rightarrow> int" where
  "digit_val x = of_char x - 48"

definition stoi :: "string \<Rightarrow> error + int" where
  "stoi s =
     (let ds = takeWhile is_digit s in
      if ds = [] then Inl invalid_argument
      else let v = foldl (\<lambda>a x. 10 * a + digit_val x) 0 ds in
           if v > 2147483647 then Inl out_of_range else Inr v)"

text \<open>The decimal text that \<^verbatim>\<open>operator<<\<close> writes for an unsigned integer.\<close>

function decimal :: "int \<Rightarrow> string" where
  "decimal n =
     (if n < 10 then [char_of (48 + n)]
      else decimal (n div 10) @ [char_of (48 + n mod 10)])"
  by pat_completeness auto
termination
  by (relation "measure nat") auto

declare decimal.simps [simp del]

text \<open>
  A \<^verbatim>\<open>std::stringstream\<close> constructed from a string, with the default open mode
  \<^verbatim>\<open>in | out\<close>: the buffer holds the string and the put position is at its \<^emph>\<open>beginning\<close>
  (it would be at the end only with \<^verbatim>\<open>std::ios::ate\<close>). Writing overwrites the buffer
  from the put position on and extends it when it reaches the end; \<^verbatim>\<open>str()\<close> is the whole
  buffer.
\<close>

record stringstream =
  buf :: string
  ppos :: nat

definition stringstream_new :: "string \<Rightarrow> stringstream" where
  "stringstream_new s = \<lparr>buf = s, ppos = 0\<rparr>"

definition put :: "string \<Rightarrow> stringstream \<Rightarrow> stringstream" where
  "put s ss =
     \<lparr>buf = take (ppos ss) (buf ss) @ s @ drop (ppos ss + length s) (buf ss),
      ppos = ppos ss + length s\<rparr>"

definition str :: "stringstream \<Rightarrow> string" where
  "str ss = buf ss"

subsection \<open>Scanning the lines of an \<^verbatim>\<open>initrwgt\<close> header\<close>

text \<open>
  The loop over \<^verbatim>\<open>iLine\<close> and the three inner loops that it enters after the opening line
  of a weight group. The argument \<open>ls\<close> holds the lines from \<^verbatim>\<open>iLine\<close> on. \<open>Outside\<close> is the
  outer loop about to test \<^verbatim>\<open>lines[iLine]\<close>; \<open>InScale\<close>, \<open>InPDF\<close> and \<open>InOther\<close> are the
  inner loops about to test it. A \<^verbatim>\<open>break\<close> goes on in the outer loop with the next line;
  \<^verbatim>\<open>--iLine; break;\<close> goes on in the outer loop with the same line.
\<close>

datatype loop = Outside | InScale | InPDF | InOther

type_synonym 'f collected = "'f ScaleVarWeight list \<times> PDFSetWeights list"

text \<open>
  \<^verbatim>\<open>if (pdfSetWeightIDs.empty() || ! pdfSetWeightIDs.back().maybe_add(wid, lhaID))
      pdfSetWeightIDs.emplace_back(wid, lhaID);\<close>
\<close>

definition addPdfWeight :: "string \<Rightarrow> 32 word \<Rightarrow> PDFSetWeights list \<Rightarrow> PDFSetWeights list" where
  "addPdfWeight w lhaID pdfSetWeightIDs =
     (if pdfSetWeightIDs = [] then [PDFSetWeights_new w lhaID]
      else let (added, pw) = maybe_add w lhaID (last pdfSetWeightIDs);
               updated = butlast pdfSetWeightIDs @ [pw]
           in if \<not> added then updated @ [PDFSetWeights_new w lhaID] else updated)"

function scan ::
  "'f float_ops \<Rightarrow> loop \<Rightarrow> string list \<Rightarrow> 'f collected \<Rightarrow> error + 'f collected" where
  "scan ops lp [] st = Inr st"
| "scan ops Outside (l # ls) st =
     (case regex_search weightgroup l of
        Some groups \<Rightarrow>
          (if groups 2 = ''scale_variation'' then scan ops InScale ls st
           else if groups 2 = ''PDF_variation'' then scan ops InPDF ls st
           else scan ops InOther ls st)
      | None \<Rightarrow> scan ops Outside ls st)"
| "scan ops InScale (l # ls) (scaleVariationIDs, pdfSetWeightIDs) =
     (case regex_search scalew l of
        Some groups \<Rightarrow>
          (case ScaleVarWeight_new ops (groups 1) (groups 2) (groups 3) (groups 4) of
             Inl e \<Rightarrow> Inl e
           | Inr sw \<Rightarrow> scan ops InScale ls (scaleVariationIDs @ [sw], pdfSetWeightIDs))
      | None \<Rightarrow>
          if regex_search endweightgroup l \<noteq> None
          then scan ops Outside ls (scaleVariationIDs, pdfSetWeightIDs)
          else if regex_search weightgroup l \<noteq> None
          then scan ops Outside (l # ls) (scaleVariationIDs, pdfSetWeightIDs)
          else scan ops InScale ls (scaleVariationIDs, pdfSetWeightIDs))"
| "scan ops InPDF (l # ls) (scaleVariationIDs, pdfSetWeightIDs) =
     (case regex_search pdfw l of
        Some groups \<Rightarrow>
          (case stoi (groups 2) of
             Inl e \<Rightarrow> Inl e
           | Inr v \<Rightarrow>
               scan ops InPDF ls
                 (scaleVariationIDs, addPdfWeight (groups 1) (word_of_int v) pdfSetWeightIDs))
      | None \<Rightarrow>
          if regex_search endweightgroup l \<noteq> None
          then scan ops Outside ls (scaleVariationIDs, pdfSetWeightIDs)
          else if regex_search weightgroup l \<noteq> None
          then scan ops Outside (l # ls) (scaleVariationIDs, pdfSetWeightIDs)
          else scan ops InPDF ls (scaleVariationIDs, pdfSetWeightIDs))"
| "scan ops InOther (l # ls) st =
     (if regex_search endweightgroup l \<noteq> None then scan ops Outside ls st
      else if regex_search weightgroup l \<noteq> None then scan ops Outside (l # ls) st
      else scan ops InOther ls st)"
  by pat_completeness auto
termination
  by (relation "measure (\<lambda>(ops, lp, ls, st). 2 * length ls + (if lp = Outside then 0 else 1))")
    auto

subsection \<open>Scale variations\<close>

text \<open>
  \<^verbatim>\<open>std::sort\<close> with \<^verbatim>\<open>ScaleVarWeight::operator<\<close>, as an insertion sort. The standard
  promises a permutation that is sorted by \<^verbatim>\<open>operator<\<close> and no order among elements that
  \<^verbatim>\<open>operator<\<close> does not tell apart: \<^verbatim>\<open>std::sort\<close> is not stable, and the library's
  introsort may order such elements otherwise than the insertion sort does (it does for
  more than sixteen elements). The model is exact for vectors whose elements
  \<^verbatim>\<open>operator<\<close> tells apart; the properties below use it on such vectors only.
\<close>

fun sort_insert ::
  "'f float_ops \<Rightarrow> 'f ScaleVarWeight \<Rightarrow> 'f ScaleVarWeight list \<Rightarrow> 'f ScaleVarWeight list" where
  "sort_insert ops x [] = [x]"
| "sort_insert ops x (y # ys) =
     (if ScaleVarWeight_less ops x y then x # y # ys else y # sort_insert ops x ys)"

definition std_sort :: "'f float_ops \<Rightarrow> 'f ScaleVarWeight list \<Rightarrow> 'f ScaleVarWeight list" where
  "std_sort ops xs = foldl (\<lambda>sorted x. sort_insert ops x sorted) [] xs"

text \<open>
  The loop over the sorted scale variations:
  \<^verbatim>\<open>if (isw) scaleDoc << "; "; scaleDoc << "[" << isw << "] is " << sw.label;
     weightChoice->scaleWeightIDs.push_back(sw.wid);\<close>
\<close>

fun scaleLoop ::
  "nat \<Rightarrow> 'f ScaleVarWeight list \<Rightarrow> stringstream \<times> DynamicWeightChoice
     \<Rightarrow> stringstream \<times> DynamicWeightChoice" where
  "scaleLoop isw [] acc = acc"
| "scaleLoop isw (sw # rest) (scaleDoc, weightChoice) =
     (let d1 = (if isw \<noteq> 0 then put ''; '' scaleDoc else scaleDoc);
          d2 = put (label sw) (put ''] is '' (put (decimal (int isw)) (put ''['' d1)))
      in scaleLoop (isw + 1) rest
           (d2, weightChoice\<lparr>scaleWeightIDs := scaleWeightIDs weightChoice @ [wid sw]\<rparr>))"

definition scaleVariations ::
  "'f ScaleVarWeight list \<Rightarrow> DynamicWeightChoice \<Rightarrow> DynamicWeightChoice" where
  "scaleVariations scaleVariationIDs weightChoice =
     (let (scaleDoc, wc1) =
            scaleLoop 0 scaleVariationIDs
              (stringstream_new ''LHE scale variation weights (w_var / w_nominal); '',
               weightChoice)
      in if scaleVariationIDs \<noteq> [] then wc1\<lparr>scaleWeightsDoc := str scaleDoc\<rparr> else wc1)"

subsection \<open>PDF variations\<close>

text \<open>The inner loop \<^verbatim>\<open>for (const auto & pw : pdfSetWeightIDs)\<close>: the group it stops at.\<close>

fun groupLoop :: "32 word \<Rightarrow> PDFSetWeights list \<Rightarrow> PDFSetWeights option" where
  "groupLoop lhaid [] = None"
| "groupLoop lhaid (pw # rest) =
     (if fst (lhaIDs pw) \<noteq> lhaid then groupLoop lhaid rest else Some pw)"

text \<open>
  The outer loop \<^verbatim>\<open>for (uint32_t lhaid : preferredPDFLHAIDs_)\<close>, left by \<^verbatim>\<open>if (found) break;\<close>.
\<close>

fun pdfVariations ::
  "32 word list \<Rightarrow> PDFSetWeights list \<Rightarrow> DynamicWeightChoice \<Rightarrow> DynamicWeightChoice" where
  "pdfVariations [] pdfSetWeightIDs weightChoice = weightChoice"
| "pdfVariations (lhaid # rest) pdfSetWeightIDs weightChoice =
     (case groupLoop lhaid pdfSetWeightIDs of
        Some pw \<Rightarrow>
          (let pdfDoc =
                 put ''\<newline>''
                   (put (decimal (uint (snd (lhaIDs pw))))
                      (put '' - ''
                         (put (decimal (uint (fst (lhaIDs pw))))
                            (stringstream_new
                               ''LHE pdf variation weights (w_var / w_nominal) for LHA IDs ''))))
           in weightChoice\<lparr>pdfWeightIDs := wids pw, pdfWeightsDoc := str pdfDoc\<rparr>)
      | None \<Rightarrow> pdfVariations rest pdfSetWeightIDs weightChoice)"

subsection \<open>The beginning of a run\<close>

record Header =
  tag :: string
  lines :: "string list"

text \<open>
  The loop over the headers of the \<^verbatim>\<open>LHERunInfoProduct\<close>. The vectors
  \<^verbatim>\<open>scaleVariationIDs\<close> and \<^verbatim>\<open>pdfSetWeightIDs\<close> are declared before the loop and live through
  it; the resolution of the scale and PDF variations is inside the loop, once for each
  \<^verbatim>\<open>initrwgt\<close> header.
\<close>

fun headersLoop ::
  "'f float_ops \<Rightarrow> Producer \<Rightarrow> Header list \<Rightarrow> 'f collected \<times> DynamicWeightChoice
     \<Rightarrow> error + ('f collected \<times> DynamicWeightChoice)" where
  "headersLoop ops P [] acc = Inr acc"
| "headersLoop ops P (h # hs) (st, weightChoice) =
     (if tag h \<noteq> ''initrwgt'' then headersLoop ops P hs (st, weightChoice)
      else
        case scan ops Outside (lines h) st of
          Inl e \<Rightarrow> Inl e
        | Inr (scaleVariationIDs, pdfSetWeightIDs) \<Rightarrow>
            (let sorted = std_sort ops scaleVariationIDs;
                 wc1 = scaleVariations sorted weightChoice;
                 wc2 = pdfVariations (preferredPDFLHAIDs' P) pdfSetWeightIDs wc1
             in headersLoop ops P hs ((sorted, pdfSetWeightIDs), wc2)))"

text \<open>
  \<^verbatim>\<open>globalBeginRun\<close>; \<open>lheRunInfo\<close> is the list of headers of the run's
  \<^verbatim>\<open>LHERunInfoProduct\<close>, or \<open>None\<close> when \<^verbatim>\<open>getByLabel\<close> finds no such product.
\<close>

definition globalBeginRun ::
  "'f float_ops \<Rightarrow> Producer \<Rightarrow> Header list option \<Rightarrow> Flags
     \<Rightarrow> error + (DynamicWeightChoice \<times> Flags)" where
  "globalBeginRun ops P lheRunInfo fl =
     (let (lheDebug, d) = exchange (debugRun' fl) False;
          fl1 = fl\<lparr>debugRun' := d\<rparr>;
          weightChoice = DynamicWeightChoice_new
      in
      case lheRunInfo of
        None \<Rightarrow> Inr (weightChoice, fl1)
      | Some headers \<Rightarrow>
          (case headersLoop ops P headers (([], []), weightChoice) of
             Inl e \<Rightarrow> Inl e
           | Inr (st, wc) \<Rightarrow> Inr (wc, fl1)))"

subsection \<open>The hooks of the run summary\<close>

definition beginStream :: "('l::zero) Counter" where
  "beginStream = Counter_new"

definition streamBeginRun :: "nat \<Rightarrow> ('l::zero) ModuleState \<Rightarrow> 'l ModuleState" where
  "streamBeginRun sid st = st\<lparr>streamCache := (streamCache st)(sid := clear (streamCache st sid))\<rparr>"

definition globalBeginRunSummary :: "('l::zero) Counter" where
  "globalBeginRunSummary = Counter_new"

definition streamEndRunSummary ::
  "nat \<Rightarrow> ('l::{zero,plus}) ModuleState \<Rightarrow> 'l Counter \<Rightarrow> error + 'l Counter" where
  "streamEndRunSummary sid st runCounter = merge runCounter (streamCache st sid)"

section \<open>Specification-level notions and instances\<close>

text \<open>
  Two vectors that \<^verbatim>\<open>merge\<close> may meet, by the spec: the local one is empty, or both have
  the same length.
\<close>

definition same_length_or_empty :: "'a list \<Rightarrow> 'a list \<Rightarrow> bool" where
  "same_length_or_empty mine theirs = (mine = [] \<or> length mine = length theirs)"

text \<open>
  An instance of the \<^verbatim>\<open>float\<close> operations for concrete headers: on a string of at most
  seven decimal digits \<^verbatim>\<open>std::stof\<close> returns the number they denote, exactly, and such
  numbers compare as the integers do. Other strings are not used in the examples.
\<close>

definition stof_digits :: "string \<Rightarrow> error + int" where
  "stof_digits s =
     (if s \<noteq> [] \<and> list_all is_digit s \<and> length s \<le> 7
      then Inr (foldl (\<lambda>a x. 10 * a + digit_val x) 0 s)
      else Inl invalid_argument)"

definition digits_ops :: "int float_ops" where
  "digits_ops = \<lparr>stof = stof_digits, float_eq = (=), float_less = (<)\<rparr>"

text \<open>
  The value that the spec gives the slot \<open>i\<close> of a column over the identifiers \<open>ids\<close>: the
  weight of the last record of the event with the identifier \<open>ids ! i\<close>, divided by
  \<^verbatim>\<open>originalXWGTUP\<close>, or 1 when the event has no such record.
\<close>

definition claimed_weight ::
  "string list \<Rightarrow> ('d::{one,inverse}) LHEEventProduct \<Rightarrow> nat \<Rightarrow> 'd" where
  "claimed_weight ids lheProd i =
     (case map_of (rev (weights lheProd)) (ids ! i) of
        Some w \<Rightarrow> w / originalXWGTUP lheProd
      | None \<Rightarrow> 1)"

text \<open>
  The same, where \<open>i\<close> is the first position of its identifier in \<open>ids\<close>; 1 at every later
  position of an identifier that \<open>ids\<close> repeats.
\<close>

definition normalized_weight ::
  "string list \<Rightarrow> ('d::{one,inverse}) LHEEventProduct \<Rightarrow> nat \<Rightarrow> 'd" where
  "normalized_weight ids lheProd i =
     (if std_find ids (ids ! i) = Some i then claimed_weight ids lheProd i else 1)"

text \<open>The slot \<open>i\<close> is written by some record of the event.\<close>

definition matched :: "string list \<Rightarrow> 'd LHEEventProduct \<Rightarrow> nat \<Rightarrow> bool" where
  "matched ids lheProd i =
     (i < length ids \<and> std_find ids (ids ! i) = Some i
      \<and> map_of (rev (weights lheProd)) (ids ! i) \<noteq> None)"

text \<open>
  An instance of the arithmetic in which a division by zero does not give a number: the
  reals and one more value, which every operation on it and every division by zero
  returns.
\<close>

datatype xreal = Finite real | NonFinite

instantiation xreal :: "{zero,one,plus,times,inverse}"
begin
definition zero_xreal :: xreal where
  "0 = Finite 0"
definition one_xreal :: xreal where
  "1 = Finite 1"
definition plus_xreal :: "xreal \<Rightarrow> xreal \<Rightarrow> xreal" where
  "a + b = (case (a, b) of (Finite x, Finite y) \<Rightarrow> Finite (x + y) | _ \<Rightarrow> NonFinite)"
definition times_xreal :: "xreal \<Rightarrow> xreal \<Rightarrow> xreal" where
  "a * b = (case (a, b) of (Finite x, Finite y) \<Rightarrow> Finite (x * y) | _ \<Rightarrow> NonFinite)"
definition divide_xreal :: "xreal \<Rightarrow> xreal \<Rightarrow> xreal" where
  "a div b =
     (case (a, b) of
        (Finite x, Finite y) \<Rightarrow> if y = 0 then NonFinite else Finite (x / y)
      | _ \<Rightarrow> NonFinite)"
definition inverse_xreal :: "xreal \<Rightarrow> xreal" where
  "inverse (a::xreal) = 1 div a"
instance ..
end

text \<open>
  The group that the spec selects: the first preferred LHA ID, in the order of the
  configuration, at which some collected group starts, and then the first collected group
  that starts at it.
\<close>

definition selectedGroup :: "32 word list \<Rightarrow> PDFSetWeights list \<Rightarrow> PDFSetWeights option" where
  "selectedGroup preferred groups =
     (case find (\<lambda>lhaid. lhaid \<in> set (map (\<lambda>pw. fst (lhaIDs pw)) groups)) preferred of
        None \<Rightarrow> None
      | Some lhaid \<Rightarrow> find (\<lambda>pw. fst (lhaIDs pw) = lhaid) groups)"

text \<open>The documentation string that \<^verbatim>\<open>globalBeginRun\<close> writes for a selected group.\<close>

definition pdfDocOf :: "PDFSetWeights \<Rightarrow> string" where
  "pdfDocOf pw = str (put ''\<newline>''
                   (put (decimal (uint (snd (lhaIDs pw))))
                      (put '' - ''
                         (put (decimal (uint (fst (lhaIDs pw))))
                            (stringstream_new
                               ''LHE pdf variation weights (w_var / w_nominal) for LHA IDs '')))))"

text \<open>
  The PDF fields of a weight choice are those of the selected group, or empty when no
  group is selected.
\<close>

definition pdfChoiceOf :: "32 word list \<Rightarrow> PDFSetWeights list \<Rightarrow> DynamicWeightChoice \<Rightarrow> bool" where
  "pdfChoiceOf preferred groups wc =
     (case selectedGroup preferred groups of
        None \<Rightarrow> pdfWeightIDs wc = [] \<and> pdfWeightsDoc wc = []
      | Some pw \<Rightarrow> pdfWeightIDs wc = wids pw)"

text \<open>
  The lines of an \<^verbatim>\<open>initrwgt\<close> header, as the generators write them: the opening line of
  a weight group, its closing line, a scale weight and a PDF weight.
\<close>

definition opener :: "string \<Rightarrow> string \<Rightarrow> string" where
  "opener combine name =
     ''<weightgroup combine='' @ [dq] @ combine @ [dq] @ '' name='' @ [dq] @ name @ [dq] @ ''>''"

definition closer :: string where
  "closer = ''</weightgroup>''"

definition scale_line :: "string \<Rightarrow> string \<Rightarrow> string \<Rightarrow> string" where
  "scale_line ident muR muF =
     ''<weight id='' @ [dq] @ ident @ [dq] @ ''> muR='' @ muR @ '' muF='' @ muF @ '' </weight>''"

definition pdf_line :: "string \<Rightarrow> string \<Rightarrow> string" where
  "pdf_line ident lha =
     ''<weight id='' @ [dq] @ ident @ [dq] @ ''> PDF set = '' @ lha @ '' </weight>''"

text \<open>
  A closing line is a line in which \<^verbatim>\<open></weightgroup>\<close> is found and none of the other three
  patterns; an opening line is a line in which the pattern of \<^verbatim>\<open><weightgroup ...>\<close> is
  found and none of the other three.
\<close>

definition closer_line :: "string \<Rightarrow> bool" where
  "closer_line c =
     (regex_search endweightgroup c \<noteq> None \<and> regex_search weightgroup c = None
      \<and> regex_search scalew c = None \<and> regex_search pdfw c = None)"

definition opener_line :: "string \<Rightarrow> bool" where
  "opener_line l =
     (regex_search weightgroup l \<noteq> None \<and> regex_search endweightgroup l = None
      \<and> regex_search scalew l = None \<and> regex_search pdfw l = None)"

text \<open>
  The documentation string of the scale weights by the spec: the fixed beginning, then
  \<open>[0] is LABEL0; [1] is LABEL1; ...\<close>.
\<close>

fun doc_items :: "nat \<Rightarrow> string list \<Rightarrow> string" where
  "doc_items i [] = []"
| "doc_items i (l # ls) =
     (if i \<noteq> 0 then ''; '' else []) @ ''['' @ decimal (int i) @ ''] is '' @ l
       @ doc_items (i + 1) ls"

definition claimed_scaleWeightsDoc :: "string list \<Rightarrow> string" where
  "claimed_scaleWeightsDoc labels =
     ''LHE scale variation weights (w_var / w_nominal); '' @ doc_items 0 labels"

text \<open>
  A stream constructed from \<open>init\<close> after the text \<open>w\<close> has been written to it: \<open>w\<close> has
  replaced the beginning of \<open>init\<close>.
\<close>

definition overwritten :: "string \<Rightarrow> string \<Rightarrow> stringstream" where
  "overwritten init w = \<lparr>buf = w @ drop (length w) init, ppos = length w\<rparr>"

section \<open>Properties\<close>

text \<open>
  Claim C8. Constructing the producer with \<open>namedWeightIDs\<close> and \<open>namedWeightLabels\<close> of
  unequal lengths throws the \<open>Configuration\<close> exception, so no producer exists that could
  process a run or an event; with equal lengths the construction returns a producer.
\<close>

theorem C8_construction_check:
  "(length (namedWeightIDs params) \<noteq> length (namedWeightLabels params) \<longrightarrow>
      GenWeightsTableProducer params =
        Inl (cms_Exception ''Configuration''
               ''Size mismatch between namedWeightIDs & namedWeightLabels''))
   \<and> (length (namedWeightIDs params) = length (namedWeightLabels params) \<longrightarrow>
      (\<exists>p fl. GenWeightsTableProducer params = Inr (p, fl)
         \<and> namedWeightIDs' p = namedWeightIDs params
         \<and> namedWeightLabels' p = namedWeightLabels params))"
  by (simp add: GenWeightsTableProducer_def Let_def)

theorem C8_construction_check_witness:
  "GenWeightsTableProducer
     \<lparr>genEvent = ''generator'', lheInfo = ''externalLHEProducer'', preferredPDFs = [],
      namedWeightIDs = [''PSw0'', ''PSw1''], namedWeightLabels = [''isrUp''], debug = None\<rparr>
     = Inl (cms_Exception ''Configuration''
              ''Size mismatch between namedWeightIDs & namedWeightLabels'')
   \<and> (\<exists>p fl. GenWeightsTableProducer
     \<lparr>genEvent = ''generator'', lheInfo = ''externalLHEProducer'', preferredPDFs = [],
      namedWeightIDs = [''PSw0'', ''PSw1''], namedWeightLabels = [''isrUp'', ''fsrUp''],
      debug = None\<rparr> = Inr (p, fl))"
  using C8_construction_check
          [of "\<lparr>genEvent = ''generator'', lheInfo = ''externalLHEProducer'', preferredPDFs = [],
               namedWeightIDs = [''PSw0'', ''PSw1''], namedWeightLabels = [''isrUp''],
               debug = None\<rparr>"]
        C8_construction_check
          [of "\<lparr>genEvent = ''generator'', lheInfo = ''externalLHEProducer'', preferredPDFs = [],
               namedWeightIDs = [''PSw0'', ''PSw1''],
               namedWeightLabels = [''isrUp'', ''fsrUp''], debug = None\<rparr>"]
  by simp blast

subsection \<open>The counter\<close>

lemma addLoop_short:
  "i < n \<Longrightarrow> i < length tot \<Longrightarrow> length incs \<le> i \<Longrightarrow> addLoop i n tot incs = Inl out_of_bounds"
  by (subst addLoop.simps) simp

lemma addLoop_total:
  "i \<le> n \<Longrightarrow> n = length tot \<Longrightarrow> n \<le> length incs \<Longrightarrow>
   addLoop i n tot incs = Inr (take i tot @ map2 (+) (drop i tot) (drop i incs))"
proof (induction i n tot incs rule: addLoop.induct)
  case (1 i n tot incs)
  show ?case
  proof (cases "i < n")
    case True
    then have il: "i < length tot" "i < length incs" using 1 by auto
    have "addLoop i n tot incs = addLoop (i + 1) n (tot[i := tot ! i + incs ! i]) incs"
      using True il by (subst addLoop.simps) simp
    also have "\<dots> = Inr (take (i + 1) (tot[i := tot ! i + incs ! i]) @
        map2 (+) (drop (i + 1) (tot[i := tot ! i + incs ! i])) (drop (i + 1) incs))"
      using 1 True il by (intro "1.IH") auto
    also have "take (i + 1) (tot[i := tot ! i + incs ! i]) = take i tot @ [tot ! i + incs ! i]"
      using il by (simp add: take_Suc_conv_app_nth)
    also have "drop (i + 1) (tot[i := tot ! i + incs ! i]) = drop (i + 1) tot"
      by simp
    finally show ?thesis
      using il by (simp add: Cons_nth_drop_Suc[symmetric])
  next
    case False
    then show ?thesis using 1 by (subst addLoop.simps) simp
  qed
qed

lemma addLoop_all:
  "length tot \<le> length incs \<Longrightarrow> addLoop 0 (length tot) tot incs = Inr (map2 (+) tot incs)"
  using addLoop_total[of 0 "length tot" tot incs] by simp

lemma merge_vec:
  "same_length_or_empty (mine :: ('l::{zero,plus}) list) theirs \<Longrightarrow>
   addLoop 0 (length (resizeLike mine theirs)) (resizeLike mine theirs) theirs
     = Inr (map2 (+) (resizeLike mine theirs) theirs)"
  by (rule addLoop_all) (auto simp: same_length_or_empty_def resizeLike_def)

text \<open>
  Where the local vector is empty or as long as the other one, \<^verbatim>\<open>merge\<close> adds the scalars
  and adds the vectors element by element, an empty local vector counting as zeros.
\<close>

lemma merge_defined:
  fixes c :: "('l::{zero,plus}) Counter"
  assumes "same_length_or_empty (sumScale c) (sumScale other)"
    and "same_length_or_empty (sumPDF c) (sumPDF other)"
    and "same_length_or_empty (sumNamed c) (sumNamed other)"
  shows "merge c other =
     Inr \<lparr>num = num c + num other, sumw = sumw c + sumw other, sumw2 = sumw2 c + sumw2 other,
          sumPDF = map2 (+) (resizeLike (sumPDF c) (sumPDF other)) (sumPDF other),
          sumScale = map2 (+) (resizeLike (sumScale c) (sumScale other)) (sumScale other),
          sumNamed = map2 (+) (resizeLike (sumNamed c) (sumNamed other)) (sumNamed other)\<rparr>"
  using assms by (simp add: merge_def Let_def merge_vec)

text \<open>
  Where the local scale vector is not empty and the other one is, the first turn of the
  loop reads \<^verbatim>\<open>other.sumScale[0]\<close> of an empty vector.
\<close>

lemma merge_other_empty:
  fixes c :: "('l::{zero,plus}) Counter"
  assumes "sumScale c \<noteq> []" and "sumScale other = []"
  shows "merge c other = Inl out_of_bounds"
  using assms by (simp add: merge_def Let_def resizeLike_def addLoop_short)

text \<open>
  Claim C5, at the input where the code departs from it. The run counter holds the sums
  of a stream that saw an LHE event with one scale weight; the counter of a stream that saw
  no event of the run, still as \<^verbatim>\<open>clear()\<close> left it, is merged into it. The claim says that
  this merge is well-defined and leaves the local vectors unchanged; the code reads
  \<^verbatim>\<open>other.sumScale[0]\<close>, which is out of bounds.
\<close>

theorem C5_merge_reads_out_of_bounds:
  "merge \<lparr>num = 1, sumw = 2, sumw2 = 4, sumPDF = [], sumScale = [3], sumNamed = []\<rparr>
     (clear (Counter_new :: real Counter)) = Inl out_of_bounds"
  by (simp add: merge_other_empty Counter_new_def clear_def)

subsection \<open>Events without an LHE product\<close>

text \<open>
  Claim C7. Without an \<^verbatim>\<open>LHERunInfoProduct\<close>, \<^verbatim>\<open>globalBeginRun\<close> returns the weight choice
  with its four fields empty. An event without an LHE product (and with its generator
  weight \<open>w\<close>) gets the three LHE tables as tables of one row and no column, and its
  stream's counter is advanced by \<^verbatim>\<open>incGenOnly(w)\<close>.
\<close>

theorem C7_no_lhe:
  "(\<exists>fl1. globalBeginRun ops P None fl = Inr (DynamicWeightChoice_new, fl1))
   \<and> scaleWeightIDs DynamicWeightChoice_new = [] \<and> scaleWeightsDoc DynamicWeightChoice_new = []
   \<and> pdfWeightIDs DynamicWeightChoice_new = [] \<and> pdfWeightsDoc DynamicWeightChoice_new = []
   \<and> (genEventInfo iEvent = Some w \<and> lheEventProduct iEvent = None \<longrightarrow>
        (\<exists>tabs st1. produce widen narrow P weightChoice sid iEvent st = Inr (tabs, st1)
           \<and> lheScaleTab tabs = \<lparr>rows = 1, tableName = ''LHEScaleWeights'', singleton = True,
                                   tableDoc = [], columns = []\<rparr>
           \<and> lhePdfTab tabs = \<lparr>rows = 1, tableName = ''LHEPdfWeights'', singleton = True,
                                 tableDoc = [], columns = []\<rparr>
           \<and> lheNamedTab tabs = \<lparr>rows = 1, tableName = ''LHENamedWeights'', singleton = True,
                                   tableDoc = [], columns = []\<rparr>
           \<and> streamCache st1 sid = incGenOnly widen w (streamCache st sid)))"
  by (simp add: globalBeginRun_def produce_def exchange_def Let_def DynamicWeightChoice_new_def
      FlatTable_new_def)

theorem C7_no_lhe_witness:
  "\<exists>tabs st1.
     produce (\<lambda>x::real. x) (\<lambda>x::real. x)
        \<lparr>genTag' = ''generator'', lheLabel' = ''externalLHEProducer'', preferredPDFLHAIDs' = [],
         namedWeightIDs' = [], namedWeightLabels' = []\<rparr>
        DynamicWeightChoice_new 0 \<lparr>genEventInfo = Some 3, lheEventProduct = None\<rparr>
        \<lparr>streamCache = (\<lambda>sid. Counter_new),
         flags = \<lparr>debug' = False, debugRun' = False, hasIssuedWarning' = False\<rparr>,
         warnings = []\<rparr> = Inr (tabs, st1)
     \<and> columns (lheScaleTab tabs) = [] \<and> rows (lheScaleTab tabs) = 1
     \<and> columns (lhePdfTab tabs) = [] \<and> rows (lhePdfTab tabs) = 1
     \<and> columns (lheNamedTab tabs) = [] \<and> rows (lheNamedTab tabs) = 1
     \<and> streamCache st1 0 = \<lparr>num = 1, sumw = 3, sumw2 = 9, sumPDF = [], sumScale = [],
                              sumNamed = []\<rparr>"
  using C7_no_lhe
          [of digits_ops
              "\<lparr>genTag' = ''generator'', lheLabel' = ''externalLHEProducer'',
                preferredPDFLHAIDs' = [], namedWeightIDs' = [], namedWeightLabels' = []\<rparr>"
              "\<lparr>debug' = False, debugRun' = False, hasIssuedWarning' = False\<rparr>"
              "\<lparr>genEventInfo = Some (3::real), lheEventProduct = None\<rparr>" 3
              "\<lambda>x::real. x" "\<lambda>x::real. x"
              DynamicWeightChoice_new 0
              "\<lparr>streamCache = (\<lambda>sid. Counter_new),
                flags = \<lparr>debug' = False, debugRun' = False, hasIssuedWarning' = False\<rparr>,
                warnings = []\<rparr>"]
  by (auto simp: incGenOnly_def Counter_new_def)

subsection \<open>The warning latch\<close>

text \<open>
  The latch starts as \<^verbatim>\<open>false\<close> and \<^verbatim>\<open>exchange(false)\<close> stores \<^verbatim>\<open>false\<close> again, so it is
  \<^verbatim>\<open>false\<close> after every event without an LHE product, and each such event that finds it
  \<^verbatim>\<open>false\<close> sends the warning.
\<close>

lemma produce_without_lhe_warns:
  assumes "genEventInfo iEvent = Some w" and "lheEventProduct iEvent = None"
  shows "\<exists>tabs st1. produce widen narrow P weightChoice sid iEvent st = Inr (tabs, st1)
           \<and> warnings st1 =
               (if hasIssuedWarning' (flags st) then warnings st
                else warnings st @ [''No LHEEventProduct, so there will be no LHE Tables\<newline>''])
           \<and> hasIssuedWarning' (flags st1) = False"
  using assms by (simp add: produce_def exchange_def Let_def)

text \<open>
  Claim C4, at the input where the code departs from it: a freshly constructed module
  processes two events without an LHE product, with generator weights 1 and 3, on one
  stream. The claim says that at most one warning is sent in the run; the code sends two.
\<close>

theorem C4_warning_sent_twice:
  "\<exists>tabs st1.
     produceAll (\<lambda>x::real. x) (\<lambda>x::real. x)
        \<lparr>genTag' = ''generator'', lheLabel' = ''externalLHEProducer'', preferredPDFLHAIDs' = [],
         namedWeightIDs' = [], namedWeightLabels' = []\<rparr>
        DynamicWeightChoice_new
        [(0, \<lparr>genEventInfo = Some 1, lheEventProduct = None\<rparr>),
         (0, \<lparr>genEventInfo = Some 3, lheEventProduct = None\<rparr>)]
        \<lparr>streamCache = (\<lambda>sid. Counter_new),
         flags = \<lparr>debug' = False, debugRun' = False, hasIssuedWarning' = False\<rparr>,
         warnings = []\<rparr> = Inr (tabs, st1)
     \<and> warnings st1 = [''No LHEEventProduct, so there will be no LHE Tables\<newline>'',
                        ''No LHEEventProduct, so there will be no LHE Tables\<newline>'']
     \<and> num (streamCache st1 0) = 2 \<and> sumw (streamCache st1 0) = 4
     \<and> sumw2 (streamCache st1 0) = 10"
  by (simp add: produce_def exchange_def Let_def incGenOnly_def Counter_new_def)

subsection \<open>The order of the scale variations\<close>

lemma stoi_of_10_and_9: "stoi ''10'' = Inr 10 \<and> stoi ''9'' = Inr 9"
  by code_simp

lemma string_10_less_9: "''10'' < ''9'' \<and> \<not> ''9'' < ''10''"
  by simp

text \<open>
  Claim C10. When \<^verbatim>\<open>operator==\<close> finds the \<open>(muR, muF)\<close> pairs of two scale weights equal,
  \<^verbatim>\<open>operator<\<close> is the order of their identifiers as strings, in both directions, and
  that order is the lexicographic one over the character codes, not the order of the
  numbers that the digits denote. For the identifiers \<open>10\<close> and \<open>9\<close> (the numbers 10 and
  9): the weight with \<open>10\<close> is less than the weight with \<open>9\<close> and not the other way
  round, and sorting puts it first whichever of the two comes first in the vector.
\<close>

theorem C10_identifier_tiebreak_is_lexicographic:
  assumes "pair_eq ops (scales a) (scales b)" and "pair_eq ops (scales b) (scales a)"
  shows "(ScaleVarWeight_less ops a b \<longleftrightarrow> wid a < wid b)
       \<and> (ScaleVarWeight_less ops b a \<longleftrightarrow> wid b < wid a)
       \<and> (wid a < wid b
            \<longleftrightarrow> (wid a, wid b) \<in> lexord {(x, y). (of_char x :: nat) < of_char y})
       \<and> (wid a = ''10'' \<and> wid b = ''9'' \<longrightarrow>
            ScaleVarWeight_less ops a b \<and> \<not> ScaleVarWeight_less ops b a
            \<and> std_sort ops [a, b] = [a, b] \<and> std_sort ops [b, a] = [a, b]
            \<and> stoi (wid a) = Inr 10 \<and> stoi (wid b) = Inr 9)"
proof -
  have lt: "ScaleVarWeight_less ops a b \<longleftrightarrow> wid a < wid b"
    and gt: "ScaleVarWeight_less ops b a \<longleftrightarrow> wid b < wid a"
    using assms by (simp_all add: ScaleVarWeight_less_def)
  have lex: "wid a < wid b
      \<longleftrightarrow> (wid a, wid b) \<in> lexord {(x, y). (of_char x :: nat) < of_char y}"
    by (simp add: list_less_def less_char_def)
  have ex: "ScaleVarWeight_less ops a b \<and> \<not> ScaleVarWeight_less ops b a
            \<and> std_sort ops [a, b] = [a, b] \<and> std_sort ops [b, a] = [a, b]
            \<and> stoi (wid a) = Inr 10 \<and> stoi (wid b) = Inr 9"
    if "wid a = ''10''" "wid b = ''9''"
    using that lt gt stoi_of_10_and_9 string_10_less_9 by (simp add: std_sort_def)
  from lt gt lex ex show ?thesis by blast
qed

theorem C10_identifier_tiebreak_is_lexicographic_witness:
  "pair_eq digits_ops (scales \<lparr>wid = ''10'', label = ''muR=1 muF=1 '', scales = (1, 1)\<rparr>)
     (scales \<lparr>wid = ''9'', label = ''muR=1 muF=1 '', scales = (1, 1)\<rparr>)
   \<and> ScaleVarWeight_less digits_ops \<lparr>wid = ''10'', label = ''muR=1 muF=1 '', scales = (1, 1)\<rparr>
       \<lparr>wid = ''9'', label = ''muR=1 muF=1 '', scales = (1, 1)\<rparr>
   \<and> \<not> ScaleVarWeight_less digits_ops \<lparr>wid = ''9'', label = ''muR=1 muF=1 '', scales = (1, 1)\<rparr>
       \<lparr>wid = ''10'', label = ''muR=1 muF=1 '', scales = (1, 1)\<rparr>
   \<and> std_sort digits_ops
       [\<lparr>wid = ''9'', label = ''muR=1 muF=1 '', scales = (1, 1)\<rparr>,
        \<lparr>wid = ''10'', label = ''muR=1 muF=1 '', scales = (1, 1)\<rparr>]
       = [\<lparr>wid = ''10'', label = ''muR=1 muF=1 '', scales = (1, 1)\<rparr>,
          \<lparr>wid = ''9'', label = ''muR=1 muF=1 '', scales = (1, 1)\<rparr>]
   \<and> std_sort digits_ops
       [\<lparr>wid = ''10'', label = ''muR=1 muF=1 '', scales = (1, 1)\<rparr>,
        \<lparr>wid = ''9'', label = ''muR=1 muF=1 '', scales = (1, 1)\<rparr>]
       = [\<lparr>wid = ''10'', label = ''muR=1 muF=1 '', scales = (1, 1)\<rparr>,
          \<lparr>wid = ''9'', label = ''muR=1 muF=1 '', scales = (1, 1)\<rparr>]
   \<and> globalBeginRun digits_ops
     \<lparr>genTag' = ''generator'', lheLabel' = ''externalLHEProducer'', preferredPDFLHAIDs' = [],
      namedWeightIDs' = [], namedWeightLabels' = []\<rparr>
     (Some [\<lparr>tag = ''initrwgt'',
             lines = [opener ''envelope'' ''scale_variation'', scale_line ''9'' ''1'' ''1'',
                      scale_line ''10'' ''1'' ''1'', closer]\<rparr>])
     \<lparr>debug' = False, debugRun' = False, hasIssuedWarning' = False\<rparr>
   = Inr (\<lparr>scaleWeightIDs = [''10'', ''9''],
           scaleWeightsDoc = ''[0] is muR=1 muF=1 ; [1] is muR=1 muF=1 ominal); '',
           pdfWeightIDs = [], pdfWeightsDoc = []\<rparr>,
          \<lparr>debug' = False, debugRun' = False, hasIssuedWarning' = False\<rparr>)"
proof -
  let ?a = "\<lparr>wid = ''10'', label = ''muR=1 muF=1 '', scales = (1::int, 1::int)\<rparr>"
  let ?b = "\<lparr>wid = ''9'', label = ''muR=1 muF=1 '', scales = (1::int, 1::int)\<rparr>"
  have e1: "pair_eq digits_ops (scales ?a) (scales ?b)"
    and e2: "pair_eq digits_ops (scales ?b) (scales ?a)"
    by (simp_all add: pair_eq_def digits_ops_def)
  have run: "globalBeginRun digits_ops
     \<lparr>genTag' = ''generator'', lheLabel' = ''externalLHEProducer'', preferredPDFLHAIDs' = [],
      namedWeightIDs' = [], namedWeightLabels' = []\<rparr>
     (Some [\<lparr>tag = ''initrwgt'',
             lines = [opener ''envelope'' ''scale_variation'', scale_line ''9'' ''1'' ''1'',
                      scale_line ''10'' ''1'' ''1'', closer]\<rparr>])
     \<lparr>debug' = False, debugRun' = False, hasIssuedWarning' = False\<rparr>
   = Inr (\<lparr>scaleWeightIDs = [''10'', ''9''],
           scaleWeightsDoc = ''[0] is muR=1 muF=1 ; [1] is muR=1 muF=1 ominal); '',
           pdfWeightIDs = [], pdfWeightsDoc = []\<rparr>,
          \<lparr>debug' = False, debugRun' = False, hasIssuedWarning' = False\<rparr>)"
    by code_simp
  from C10_identifier_tiebreak_is_lexicographic[OF e1 e2] e1 run show ?thesis by simp
qed

subsection \<open>The weights of an event\<close>

lemma std_find_Some: "std_find ids x = Some k \<Longrightarrow> k < length ids \<and> ids ! k = x"
  by (induction ids arbitrary: k) (auto split: if_splits)

lemma std_find_None: "std_find ids x = None \<longleftrightarrow> x \<notin> set ids"
  by (induction ids) auto

lemma length_setMatch [simp]: "length (setMatch ids w0 weight w) = length w"
  by (simp add: setMatch_def split: option.splits)

lemma weightsLoop_eq:
  "weightsLoop sIDs pIDs nIDs w0 ws (a, b, c) =
     (foldl (\<lambda>w x. setMatch sIDs w0 x w) a ws, foldl (\<lambda>w x. setMatch pIDs w0 x w) b ws,
      foldl (\<lambda>w x. setMatch nIDs w0 x w) c ws)"
  by (induction ws arbitrary: a b c) auto

lemma length_foldl_setMatch [simp]:
  "length (foldl (\<lambda>w x. setMatch ids w0 x w) a ws) = length a"
  by (induction ws arbitrary: a) auto

lemma foldl_setMatch_nth:
  assumes "length a = length ids" and "i < length ids"
  shows "foldl (\<lambda>w x. setMatch ids w0 x w) a ws ! i =
     (if std_find ids (ids ! i) = Some i
      then (case map_of (rev ws) (ids ! i) of Some v \<Rightarrow> v / w0 | None \<Rightarrow> a ! i)
      else a ! i)"
proof (induction ws rule: rev_induct)
  case Nil
  then show ?case by simp
next
  case (snoc p ws)
  let ?w = "foldl (\<lambda>w x. setMatch ids w0 x w) a ws"
  have len: "length ?w = length ids" using assms by simp
  show ?case
  proof (cases "std_find ids (fst p)")
    case None
    then have "fst p \<noteq> ids ! i" using assms(2) by (auto simp: std_find_None)
    then show ?thesis using snoc None by (simp add: setMatch_def)
  next
    case (Some k)
    then have k: "k < length ids" "ids ! k = fst p" using std_find_Some[of ids "fst p" k] by simp_all
    show ?thesis
    proof (cases "k = i")
      case True
      then show ?thesis using Some k len assms by (simp add: setMatch_def)
    next
      case False
      then show ?thesis using Some k len assms snoc by (auto simp add: setMatch_def)
    qed
  qed
qed

lemma lheWeightVectors_eq:
  "lheWeightVectors P wc lheProd =
     (map (normalized_weight (scaleWeightIDs wc) lheProd) [0..<length (scaleWeightIDs wc)],
      map (normalized_weight (pdfWeightIDs wc) lheProd) [0..<length (pdfWeightIDs wc)],
      map (normalized_weight (namedWeightIDs' P) lheProd) [0..<length (namedWeightIDs' P)])"
  by (simp add: lheWeightVectors_def weightsLoop_eq)
     (auto intro!: nth_equalityI simp: foldl_setMatch_nth normalized_weight_def claimed_weight_def split: option.splits)


lemma namedLoop_columns:
  "namedLoop narrow P wNamed i n tab = Inr tab1 \<Longrightarrow> i \<le> n \<Longrightarrow>
   columns tab1 = columns tab @
     map (\<lambda>j. \<lparr>colName = namedWeightLabels' P ! j, colValues = [narrow (wNamed ! j)],
               colDoc = ''LHE weight for id '' @ namedWeightIDs' P ! j @ '', relative to nominal''\<rparr>)
       [i..<n]"
proof (induction narrow P wNamed i n tab rule: namedLoop.induct)
  case (1 narrow P wNamed i n outNamed)
  show ?case
  proof (cases "i < n")
    case True
    with "1.prems" have ok: "i < length (namedWeightLabels' P) \<and> i < length wNamed
            \<and> i < length (namedWeightIDs' P)"
      by (subst (asm) namedLoop.simps) (auto split: if_splits)
    with True "1.prems" have
      "namedLoop narrow P wNamed (i + 1) n
                (addColumnValue narrow (namedWeightLabels' P ! i) (wNamed ! i)
                   (''LHE weight for id '' @ namedWeightIDs' P ! i @ '', relative to nominal'')
                   outNamed) = Inr tab1"
      by (subst (asm) namedLoop.simps) simp
    from "1.IH"[OF True ok this] True show ?thesis
      by (simp add: addColumnValue_def addColumn_def upt_conv_Cons)
  next
    case False
    with "1.prems" show ?thesis by (subst (asm) namedLoop.simps) simp
  qed
qed

lemma fillLHEWeightTables_columns:
  fixes narrow :: "('d::{one,times,inverse}) \<Rightarrow> 'f"
  assumes "fillLHEWeightTables widen narrow P counter wc genWeight lheProd fl
             = Inr (counter1, fl1, outScale, outPdf, outNamed)"
  shows "columns outScale =
           [\<lparr>colName = [],
             colValues = map (\<lambda>i. narrow (normalized_weight (scaleWeightIDs wc) lheProd i))
                           [0..<length (scaleWeightIDs wc)],
             colDoc = scaleWeightsDoc wc\<rparr>]
       \<and> columns outPdf =
           [\<lparr>colName = [],
             colValues = map (\<lambda>i. narrow (normalized_weight (pdfWeightIDs wc) lheProd i))
                           [0..<length (pdfWeightIDs wc)],
             colDoc = pdfWeightsDoc wc\<rparr>]
       \<and> columns outNamed =
           \<lparr>colName = ''originalXWGTUP'', colValues = [narrow (originalXWGTUP lheProd)],
            colDoc = ''Nominal event weight in the LHE file''\<rparr> #
           map (\<lambda>i. \<lparr>colName = namedWeightLabels' P ! i,
                     colValues = [narrow (normalized_weight (namedWeightIDs' P) lheProd i)],
                     colDoc = ''LHE weight for id '' @ namedWeightIDs' P ! i
                                @ '', relative to nominal''\<rparr>)
             [0..<length (namedWeightIDs' P)]"
proof -
  let ?n = "length (namedWeightIDs' P)"
  let ?wNamed = "map (normalized_weight (namedWeightIDs' P) lheProd) [0..<?n]"
  let ?tab0 = "addColumnValue narrow ''originalXWGTUP'' (originalXWGTUP lheProd)
                        ''Nominal event weight in the LHE file''
                        (FlatTable_new 1 ''LHEWeight'' True) :: 'f FlatTable"
  from assms have
    s: "outScale = addColumn narrow [] (map (normalized_weight (scaleWeightIDs wc) lheProd) [0..<length (scaleWeightIDs wc)]) (scaleWeightsDoc wc)
                       (FlatTable_new (length (scaleWeightIDs wc)) ''LHEScaleWeight'' False)"
    and p: "outPdf = addColumn narrow [] (map (normalized_weight (pdfWeightIDs wc) lheProd) [0..<length (pdfWeightIDs wc)]) (pdfWeightsDoc wc)
                       (FlatTable_new (length (pdfWeightIDs wc)) ''LHEPdfWeight'' False)"
    and n: "namedLoop narrow P ?wNamed 0 ?n ?tab0 = Inr outNamed"
    by (auto simp: fillLHEWeightTables_def lheWeightVectors_eq exchange_def Let_def
        split: sum.splits)
  have "columns outNamed = columns ?tab0 @
     map (\<lambda>j. \<lparr>colName = namedWeightLabels' P ! j, colValues = [narrow (?wNamed ! j)],
               colDoc = ''LHE weight for id '' @ namedWeightIDs' P ! j @ '', relative to nominal''\<rparr>)
       [0..<?n]"
    by (rule namedLoop_columns[OF n]) simp
  then have "columns outNamed = columns ?tab0 @
     map (\<lambda>j. \<lparr>colName = namedWeightLabels' P ! j, colValues = [narrow (normalized_weight (namedWeightIDs' P) lheProd j)],
               colDoc = ''LHE weight for id '' @ namedWeightIDs' P ! j @ '', relative to nominal''\<rparr>)
       [0..<?n]"
    by simp
  then show ?thesis
    using s p by (simp add: addColumn_def addColumnValue_def FlatTable_new_def comp_def)
qed


lemmas eval_defs = fillLHEWeightTables_def lheWeightVectors_def setMatch_def exchange_def Let_def
  addColumn_def addColumnValue_def FlatTable_new_def namedLoop.simps addLoop.simps incLHE_def
  incVariation_def incGenOnly_def Counter_new_def DynamicWeightChoice_new_def

text \<open>
  Claim C1, as amended. For an event with an LHE product, the columns of the tables
  \<open>LHEScaleWeight\<close>, \<open>LHEPdfWeight\<close> and \<open>LHEWeight\<close> hold, at the position \<open>i\<close> of a
  configured identifier: where \<open>i\<close> is the first position of that identifier in the
  configured list, the weight of the last record of the event with that identifier divided
  by \<open>originalXWGTUP\<close>, or 1 when the event has no such record; at every later position of a
  repeated identifier, 1.
\<close>

theorem C1_normalization:
  fixes narrow :: "('d::{one,times,inverse}) \<Rightarrow> 'f"
  assumes "fillLHEWeightTables widen narrow P counter wc genWeight lheProd fl
             = Inr (counter1, fl1, outScale, outPdf, outNamed)"
  shows "columns outScale =
           [\<lparr>colName = [],
             colValues = map (\<lambda>i. narrow (normalized_weight (scaleWeightIDs wc) lheProd i))
                           [0..<length (scaleWeightIDs wc)],
             colDoc = scaleWeightsDoc wc\<rparr>]
       \<and> columns outPdf =
           [\<lparr>colName = [],
             colValues = map (\<lambda>i. narrow (normalized_weight (pdfWeightIDs wc) lheProd i))
                           [0..<length (pdfWeightIDs wc)],
             colDoc = pdfWeightsDoc wc\<rparr>]
       \<and> columns outNamed =
           \<lparr>colName = ''originalXWGTUP'', colValues = [narrow (originalXWGTUP lheProd)],
            colDoc = ''Nominal event weight in the LHE file''\<rparr> #
           map (\<lambda>i. \<lparr>colName = namedWeightLabels' P ! i,
                     colValues = [narrow (normalized_weight (namedWeightIDs' P) lheProd i)],
                     colDoc = ''LHE weight for id '' @ namedWeightIDs' P ! i
                                @ '', relative to nominal''\<rparr>)
             [0..<length (namedWeightIDs' P)]"
  using assms by (rule fillLHEWeightTables_columns)

theorem C1_normalization_witness:
  "fillLHEWeightTables (\<lambda>x::real. x) (\<lambda>x::real. x)
      \<lparr>genTag' = ''generator'', lheLabel' = ''externalLHEProducer'', preferredPDFLHAIDs' = [],
       namedWeightIDs' = [''PSw0'', ''PSw1''], namedWeightLabels' = [''isrUp'', ''fsrUp'']\<rparr>
      Counter_new
      \<lparr>scaleWeightIDs = [''1001'', ''1002''], scaleWeightsDoc = ''scale'',
       pdfWeightIDs = [''2001''], pdfWeightsDoc = ''pdf''\<rparr> 1
      \<lparr>originalXWGTUP = 2, weights = [(''1001'', 3), (''PSw1'', 4), (''1001'', 5), (''extra'', 9)]\<rparr>
      \<lparr>debug' = False, debugRun' = False, hasIssuedWarning' = False\<rparr>
    = Inr (\<lparr>num = 1, sumw = 1, sumw2 = 1, sumPDF = [1], sumScale = [5 / 2, 1], sumNamed = [1, 2]\<rparr>,
           \<lparr>debug' = False, debugRun' = False, hasIssuedWarning' = False\<rparr>,
           \<lparr>rows = 2, tableName = ''LHEScaleWeight'', singleton = False, tableDoc = [],
            columns = [\<lparr>colName = [], colValues = [5 / 2, 1], colDoc = ''scale''\<rparr>]\<rparr>,
           \<lparr>rows = 1, tableName = ''LHEPdfWeight'', singleton = False, tableDoc = [],
            columns = [\<lparr>colName = [], colValues = [1], colDoc = ''pdf''\<rparr>]\<rparr>,
           \<lparr>rows = 1, tableName = ''LHEWeight'', singleton = True, tableDoc = [],
            columns =
              [\<lparr>colName = ''originalXWGTUP'', colValues = [2],
                colDoc = ''Nominal event weight in the LHE file''\<rparr>,
               \<lparr>colName = ''isrUp'', colValues = [1],
                colDoc = ''LHE weight for id PSw0, relative to nominal''\<rparr>,
               \<lparr>colName = ''fsrUp'', colValues = [2],
                colDoc = ''LHE weight for id PSw1, relative to nominal''\<rparr>]\<rparr>)
   \<and> normalized_weight [''1001'', ''1002'']
         \<lparr>originalXWGTUP = 2::real,
          weights = [(''1001'', 3), (''PSw1'', 4), (''1001'', 5), (''extra'', 9)]\<rparr> 0 = 5 / 2
   \<and> normalized_weight [''1001'', ''1002'']
         \<lparr>originalXWGTUP = 2::real,
          weights = [(''1001'', 3), (''PSw1'', 4), (''1001'', 5), (''extra'', 9)]\<rparr> 1 = 1"
proof -
  let ?P = "\<lparr>genTag' = ''generator'', lheLabel' = ''externalLHEProducer'', preferredPDFLHAIDs' = [],
       namedWeightIDs' = [''PSw0'', ''PSw1''], namedWeightLabels' = [''isrUp'', ''fsrUp'']\<rparr>"
  let ?wc = "\<lparr>scaleWeightIDs = [''1001'', ''1002''], scaleWeightsDoc = ''scale'',
       pdfWeightIDs = [''2001''], pdfWeightsDoc = ''pdf''\<rparr>"
  let ?lhe = "\<lparr>originalXWGTUP = 2::real, weights = [(''1001'', 3), (''PSw1'', 4), (''1001'', 5), (''extra'', 9)]\<rparr>"
  let ?fl = "\<lparr>debug' = False, debugRun' = False, hasIssuedWarning' = False\<rparr>"
  have e: "fillLHEWeightTables (\<lambda>x::real. x) (\<lambda>x::real. x) ?P Counter_new ?wc 1 ?lhe ?fl
    = Inr (\<lparr>num = 1, sumw = 1, sumw2 = 1, sumPDF = [1], sumScale = [5 / 2, 1], sumNamed = [1, 2]\<rparr>,
           \<lparr>debug' = False, debugRun' = False, hasIssuedWarning' = False\<rparr>,
           \<lparr>rows = 2, tableName = ''LHEScaleWeight'', singleton = False, tableDoc = [],
            columns = [\<lparr>colName = [], colValues = [5 / 2, 1], colDoc = ''scale''\<rparr>]\<rparr>,
           \<lparr>rows = 1, tableName = ''LHEPdfWeight'', singleton = False, tableDoc = [],
            columns = [\<lparr>colName = [], colValues = [1], colDoc = ''pdf''\<rparr>]\<rparr>,
           \<lparr>rows = 1, tableName = ''LHEWeight'', singleton = True, tableDoc = [],
            columns =
              [\<lparr>colName = ''originalXWGTUP'', colValues = [2],
                colDoc = ''Nominal event weight in the LHE file''\<rparr>,
               \<lparr>colName = ''isrUp'', colValues = [1],
                colDoc = ''LHE weight for id PSw0, relative to nominal''\<rparr>,
               \<lparr>colName = ''fsrUp'', colValues = [2],
                colDoc = ''LHE weight for id PSw1, relative to nominal''\<rparr>]\<rparr>)"
    by (simp add: eval_defs)
  from C1_normalization[OF e] have "normalized_weight [''1001'', ''1002''] ?lhe 0 = 5 / 2"
    and "normalized_weight [''1001'', ''1002''] ?lhe 1 = 1"
    by simp_all
  with e show ?thesis by simp
qed


text \<open>
  The claim as stated fails where the configured list repeats an identifier: with the
  named identifiers \<open>A, A\<close> and the event weights \<open>{A: 2}\<close> over \<open>originalXWGTUP = 1\<close>,
  the second column holds 1, where the claim gives it \<open>2 / 1\<close>.
\<close>

theorem C1_normalization_counterexample:
  "fillLHEWeightTables (\<lambda>x::real. x) (\<lambda>x::real. x)
      \<lparr>genTag' = ''generator'', lheLabel' = ''externalLHEProducer'', preferredPDFLHAIDs' = [],
       namedWeightIDs' = [''A'', ''A''], namedWeightLabels' = [''first'', ''second'']\<rparr>
      Counter_new DynamicWeightChoice_new 1
      \<lparr>originalXWGTUP = 1, weights = [(''A'', 2)]\<rparr>
      \<lparr>debug' = False, debugRun' = False, hasIssuedWarning' = False\<rparr>
    = Inr (\<lparr>num = 1, sumw = 1, sumw2 = 1, sumPDF = [], sumScale = [], sumNamed = [2, 1]\<rparr>,
           \<lparr>debug' = False, debugRun' = False, hasIssuedWarning' = False\<rparr>,
           \<lparr>rows = 0, tableName = ''LHEScaleWeight'', singleton = False, tableDoc = [],
            columns = [\<lparr>colName = [], colValues = [], colDoc = []\<rparr>]\<rparr>,
           \<lparr>rows = 0, tableName = ''LHEPdfWeight'', singleton = False, tableDoc = [],
            columns = [\<lparr>colName = [], colValues = [], colDoc = []\<rparr>]\<rparr>,
           \<lparr>rows = 1, tableName = ''LHEWeight'', singleton = True, tableDoc = [],
            columns =
              [\<lparr>colName = ''originalXWGTUP'', colValues = [1],
                colDoc = ''Nominal event weight in the LHE file''\<rparr>,
               \<lparr>colName = ''first'', colValues = [2],
                colDoc = ''LHE weight for id A, relative to nominal''\<rparr>,
               \<lparr>colName = ''second'', colValues = [1],
                colDoc = ''LHE weight for id A, relative to nominal''\<rparr>]\<rparr>)
   \<and> claimed_weight [''A'', ''A''] \<lparr>originalXWGTUP = 1::real, weights = [(''A'', 2)]\<rparr> 1 = 2"
  by (simp add: eval_defs claimed_weight_def)

lemma matched_not_welldef:
  fixes lheProd :: "('d::{zero,one,inverse}) LHEEventProduct"
  assumes "\<forall>x::'d. \<not> welldef (x / 0)" and "originalXWGTUP lheProd = 0"
    and "matched ids lheProd i"
  shows "\<not> welldef (normalized_weight ids lheProd i)"
  using assms by (auto simp: matched_def normalized_weight_def claimed_weight_def)

text \<open>
  Claim C9. \<^verbatim>\<open>fillLHEWeightTables\<close> divides by \<^verbatim>\<open>originalXWGTUP\<close> whatever its value. In
  any arithmetic in which no division by zero gives a well-defined number, an event with
  \<open>originalXWGTUP = 0\<close> has a value that is not well-defined in every slot that a record
  of the event writes, and these vectors are the ones that fill the tables and that
  \<^verbatim>\<open>incLHE\<close> receives.
\<close>

theorem C9_no_zero_guard:
  fixes lheProd :: "('d::{zero,one,times,inverse}) LHEEventProduct"
    and narrow :: "'d \<Rightarrow> 'f" and widen :: "'d \<Rightarrow> 'l::{zero,plus}"
  assumes div0: "\<forall>x::'d. \<not> welldef (x / 0)"
    and w0: "originalXWGTUP lheProd = 0"
    and vecs: "lheWeightVectors P wc lheProd = (wScale, wPDF, wNamed)"
    and run: "fillLHEWeightTables widen narrow P counter wc genWeight lheProd fl
                = Inr (counter1, fl1, outScale, outPdf, outNamed)"
  shows "incLHE widen genWeight wScale wPDF wNamed counter = Inr counter1
     \<and> map colValues (columns outScale) = [map narrow wScale]
     \<and> map colValues (columns outPdf) = [map narrow wPDF]
     \<and> map colValues (columns outNamed)
         = [narrow (originalXWGTUP lheProd)] # map (\<lambda>v. [narrow v]) wNamed
     \<and> (\<forall>i. matched (scaleWeightIDs wc) lheProd i \<longrightarrow> \<not> welldef (wScale ! i))
     \<and> (\<forall>i. matched (pdfWeightIDs wc) lheProd i \<longrightarrow> \<not> welldef (wPDF ! i))
     \<and> (\<forall>i. matched (namedWeightIDs' P) lheProd i \<longrightarrow> \<not> welldef (wNamed ! i))"
proof -
  have v: "wScale = map (normalized_weight (scaleWeightIDs wc) lheProd) [0..<length (scaleWeightIDs wc)]"
    "wPDF = map (normalized_weight (pdfWeightIDs wc) lheProd) [0..<length (pdfWeightIDs wc)]"
    "wNamed = map (normalized_weight (namedWeightIDs' P) lheProd) [0..<length (namedWeightIDs' P)]"
    using vecs by (simp_all add: lheWeightVectors_eq)
  have inc: "incLHE widen genWeight wScale wPDF wNamed counter = Inr counter1"
    using run vecs by (auto simp: fillLHEWeightTables_def exchange_def Let_def split: sum.splits)
  have cols: "map colValues (columns outScale) = [map narrow wScale]"
    "map colValues (columns outPdf) = [map narrow wPDF]"
    "map colValues (columns outNamed) = [narrow (originalXWGTUP lheProd)] # map (\<lambda>v. [narrow v]) wNamed"
    using fillLHEWeightTables_columns[OF run] v by (simp_all add: comp_def)
  have "\<not> welldef (wScale ! i)" if "matched (scaleWeightIDs wc) lheProd i" for i
    using matched_not_welldef[OF div0 w0 that] that v by (simp add: matched_def)
  moreover have "\<not> welldef (wPDF ! i)" if "matched (pdfWeightIDs wc) lheProd i" for i
    using matched_not_welldef[OF div0 w0 that] that v by (simp add: matched_def)
  moreover have "\<not> welldef (wNamed ! i)" if "matched (namedWeightIDs' P) lheProd i" for i
    using matched_not_welldef[OF div0 w0 that] that v by (simp add: matched_def)
  ultimately show ?thesis using inc cols by blast
qed


theorem C9_no_zero_guard_witness:
  "fillLHEWeightTables (\<lambda>x::xreal. x) (\<lambda>x::xreal. x)
      \<lparr>genTag' = ''generator'', lheLabel' = ''externalLHEProducer'', preferredPDFLHAIDs' = [],
       namedWeightIDs' = [], namedWeightLabels' = []\<rparr>
      Counter_new
      \<lparr>scaleWeightIDs = [''1001'', ''1002''], scaleWeightsDoc = ''scale'',
       pdfWeightIDs = [], pdfWeightsDoc = []\<rparr> (Finite 1)
      \<lparr>originalXWGTUP = Finite 0, weights = [(''1001'', Finite 3)]\<rparr>
      \<lparr>debug' = False, debugRun' = False, hasIssuedWarning' = False\<rparr>
    = Inr (\<lparr>num = 1, sumw = Finite 1, sumw2 = Finite 1, sumPDF = [],
            sumScale = [NonFinite, Finite 1], sumNamed = []\<rparr>,
           \<lparr>debug' = False, debugRun' = False, hasIssuedWarning' = False\<rparr>,
           \<lparr>rows = 2, tableName = ''LHEScaleWeight'', singleton = False, tableDoc = [],
            columns = [\<lparr>colName = [], colValues = [NonFinite, Finite 1], colDoc = ''scale''\<rparr>]\<rparr>,
           \<lparr>rows = 0, tableName = ''LHEPdfWeight'', singleton = False, tableDoc = [],
            columns = [\<lparr>colName = [], colValues = [], colDoc = []\<rparr>]\<rparr>,
           \<lparr>rows = 1, tableName = ''LHEWeight'', singleton = True, tableDoc = [],
            columns =
              [\<lparr>colName = ''originalXWGTUP'', colValues = [Finite 0],
                colDoc = ''Nominal event weight in the LHE file''\<rparr>]\<rparr>)
   \<and> incLHE (\<lambda>x::xreal. x) (Finite 1) [NonFinite, Finite 1] [] [] Counter_new
       = Inr \<lparr>num = 1, sumw = Finite 1, sumw2 = Finite 1, sumPDF = [],
              sumScale = [NonFinite, Finite 1], sumNamed = []\<rparr>"
proof -
  let ?P = "\<lparr>genTag' = ''generator'', lheLabel' = ''externalLHEProducer'', preferredPDFLHAIDs' = [],
       namedWeightIDs' = [], namedWeightLabels' = []\<rparr>"
  let ?wc = "\<lparr>scaleWeightIDs = [''1001'', ''1002''], scaleWeightsDoc = ''scale'',
       pdfWeightIDs = [], pdfWeightsDoc = []\<rparr>"
  let ?lhe = "\<lparr>originalXWGTUP = Finite 0, weights = [(''1001'', Finite 3)]\<rparr>"
  let ?fl = "\<lparr>debug' = False, debugRun' = False, hasIssuedWarning' = False\<rparr>"
  have d: "\<forall>x::xreal. \<not> (\<lambda>y. y \<noteq> NonFinite) (x / 0)"
    by (simp add: divide_xreal_def zero_xreal_def split: xreal.splits)
  have z: "originalXWGTUP ?lhe = 0"
    by (simp add: zero_xreal_def)
  have v: "lheWeightVectors ?P ?wc ?lhe = ([NonFinite, Finite 1], [], [])"
    by (simp add: lheWeightVectors_def setMatch_def divide_xreal_def one_xreal_def)
  have e: "fillLHEWeightTables (\<lambda>x::xreal. x) (\<lambda>x::xreal. x) ?P Counter_new ?wc (Finite 1) ?lhe ?fl
    = Inr (\<lparr>num = 1, sumw = Finite 1, sumw2 = Finite 1, sumPDF = [],
            sumScale = [NonFinite, Finite 1], sumNamed = []\<rparr>,
           \<lparr>debug' = False, debugRun' = False, hasIssuedWarning' = False\<rparr>,
           \<lparr>rows = 2, tableName = ''LHEScaleWeight'', singleton = False, tableDoc = [],
            columns = [\<lparr>colName = [], colValues = [NonFinite, Finite 1], colDoc = ''scale''\<rparr>]\<rparr>,
           \<lparr>rows = 0, tableName = ''LHEPdfWeight'', singleton = False, tableDoc = [],
            columns = [\<lparr>colName = [], colValues = [], colDoc = []\<rparr>]\<rparr>,
           \<lparr>rows = 1, tableName = ''LHEWeight'', singleton = True, tableDoc = [],
            columns =
              [\<lparr>colName = ''originalXWGTUP'', colValues = [Finite 0],
                colDoc = ''Nominal event weight in the LHE file''\<rparr>]\<rparr>)"
    by (simp add: eval_defs divide_xreal_def one_xreal_def zero_xreal_def times_xreal_def
        plus_xreal_def)
  from C9_no_zero_guard[OF d z v e] e show ?thesis by simp
qed

subsection \<open>The choice of the PDF set\<close>

lemma groupLoop_find: "groupLoop lhaid groups = find (\<lambda>pw. fst (lhaIDs pw) = lhaid) groups"
  by (induction groups) auto

lemma find_start_None:
  "find (\<lambda>pw. fst (lhaIDs pw) = lhaid) groups = None
     \<longleftrightarrow> lhaid \<notin> set (map (\<lambda>pw. fst (lhaIDs pw)) groups)"
  by (induction groups) auto

lemma pdfVariations_selected:
  "pdfVariations preferred groups wc =
     (case selectedGroup preferred groups of
        None \<Rightarrow> wc
      | Some pw \<Rightarrow> wc\<lparr>pdfWeightIDs := wids pw, pdfWeightsDoc := pdfDocOf pw\<rparr>)"
proof (induction preferred)
  case Nil
  then show ?case by (simp add: selectedGroup_def)
next
  case (Cons lhaid rest)
  show ?case
  proof (cases "groupLoop lhaid groups")
    case None
    then have "lhaid \<notin> set (map (\<lambda>pw. fst (lhaIDs pw)) groups)"
      by (simp add: groupLoop_find find_start_None)
    then show ?thesis using None Cons by (simp add: selectedGroup_def)
  next
    case (Some pw)
    then have "lhaid \<in> set (map (\<lambda>pw. fst (lhaIDs pw)) groups)"
      using find_start_None[of lhaid groups] by (simp add: groupLoop_find)
    then show ?thesis using Some
      by (simp add: selectedGroup_def groupLoop_find pdfDocOf_def Let_def)
  qed
qed

lemma selectedGroup_None_mono:
  assumes "set (map (\<lambda>pw. fst (lhaIDs pw)) groups) \<subseteq> set (map (\<lambda>pw. fst (lhaIDs pw)) groups1)"
    and "selectedGroup preferred groups1 = None"
  shows "selectedGroup preferred groups = None"
proof -
  have "find (\<lambda>lhaid. lhaid \<in> set (map (\<lambda>pw. fst (lhaIDs pw)) groups1)) preferred = None"
    using assms(2) by (auto simp: selectedGroup_def find_start_None split: option.splits dest: find_Some_iff[THEN iffD1])
  then have "find (\<lambda>lhaid. lhaid \<in> set (map (\<lambda>pw. fst (lhaIDs pw)) groups)) preferred = None"
    unfolding find_None_iff using assms(1) by blast
  then show ?thesis by (simp add: selectedGroup_def)
qed

lemma addPdfWeight_nonempty:
  assumes "pdfs \<noteq> []"
  shows "addPdfWeight w l pdfs =
     (if l = snd (lhaIDs (last pdfs)) + 1
      then butlast pdfs @ [(last pdfs)\<lparr>lhaIDs := (fst (lhaIDs (last pdfs)), snd (lhaIDs (last pdfs)) + 1),
                                       wids := wids (last pdfs) @ [w]\<rparr>]
      else pdfs @ [PDFSetWeights_new w l])"
proof (cases "l = snd (lhaIDs (last pdfs)) + 1")
  case True
  then show ?thesis using assms by (simp add: addPdfWeight_def maybe_add_def)
next
  case False
  then show ?thesis using assms by (simp add: addPdfWeight_def maybe_add_def)
qed

lemma starts_addPdfWeight:
  "set (map (\<lambda>pw. fst (lhaIDs pw)) pdfs) \<subseteq> set (map (\<lambda>pw. fst (lhaIDs pw)) (addPdfWeight w l pdfs))"
proof (cases "pdfs = []")
  case True
  then show ?thesis by simp
next
  case False
  then have "map (\<lambda>pw. fst (lhaIDs pw)) pdfs
      = map (\<lambda>pw. fst (lhaIDs pw)) (butlast pdfs) @ [fst (lhaIDs (last pdfs))]"
    by (metis (no_types, lifting) append_butlast_last_id list.simps(8) list.simps(9) map_append)
  then show ?thesis using False
    by (auto simp: addPdfWeight_nonempty dest: in_set_butlastD)
qed

lemma scan_starts:
  "scan ops lp ls st = Inr st1 \<Longrightarrow>
   set (map (\<lambda>pw. fst (lhaIDs pw)) (snd st)) \<subseteq> set (map (\<lambda>pw. fst (lhaIDs pw)) (snd st1))"
proof (induction ops lp ls st arbitrary: st1 rule: scan.induct)
  case (1 ops lp st)
  then show ?case by auto
next
  case (2 ops l ls st)
  then show ?case by (auto split: option.splits if_splits)
next
  case (3 ops l ls scaleVariationIDs pdfSetWeightIDs)
  then show ?case by (auto split: option.splits if_splits sum.splits)
next
  case (4 ops l ls scaleVariationIDs pdfSetWeightIDs)
  show ?case
  proof (cases "regex_search pdfw l")
    case None
    then show ?thesis using 4 by (auto split: if_splits)
  next
    case (Some groups)
    then obtain v where v: "stoi (groups 2) = Inr v" using "4.prems" by (auto split: sum.splits)
    with Some "4.prems" have "scan ops InPDF ls
                 (scaleVariationIDs, addPdfWeight (groups 1) (word_of_int v) pdfSetWeightIDs) = Inr st1"
      by simp
    from "4.IH"(4)[OF Some v this] starts_addPdfWeight[of pdfSetWeightIDs "groups 1" "word_of_int v"]
    show ?thesis by auto
  qed
next
  case (5 ops l ls st)
  then show ?case by (auto split: if_splits)
qed


lemma scaleLoop_pdf:
  "scaleLoop isw svs (d, wc) = (d1, wc1) \<Longrightarrow>
   pdfWeightIDs wc1 = pdfWeightIDs wc \<and> pdfWeightsDoc wc1 = pdfWeightsDoc wc"
  by (induction isw svs "(d, wc)" arbitrary: d wc rule: scaleLoop.induct)
     (auto simp: Let_def)

lemma scaleVariations_pdf:
  "pdfWeightIDs (scaleVariations svs wc) = pdfWeightIDs wc
   \<and> pdfWeightsDoc (scaleVariations svs wc) = pdfWeightsDoc wc"
  by (auto simp: scaleVariations_def Let_def split: prod.splits dest: scaleLoop_pdf)

lemma headersLoop_pdf:
  "headersLoop ops P hs ((svs, pdfs), wc) = Inr ((svs1, pdfs1), wc1) \<Longrightarrow>
   pdfChoiceOf (preferredPDFLHAIDs' P) pdfs wc \<Longrightarrow>
   pdfChoiceOf (preferredPDFLHAIDs' P) pdfs1 wc1"
proof (induction hs arbitrary: svs pdfs wc)
  case Nil
  then show ?case by simp
next
  case (Cons h hs)
  show ?case
  proof (cases "tag h \<noteq> ''initrwgt''")
    case True
    then show ?thesis using Cons by simp
  next
    case False
    then obtain svs2 pdfs2 where sc: "scan ops Outside (lines h) (svs, pdfs) = Inr (svs2, pdfs2)"
      using Cons.prems(1) by (auto split: sum.splits)
    let ?wc2 = "pdfVariations (preferredPDFLHAIDs' P) pdfs2 (scaleVariations (std_sort ops svs2) wc)"
    have run: "headersLoop ops P hs ((std_sort ops svs2, pdfs2), ?wc2) = Inr ((svs1, pdfs1), wc1)"
      using Cons.prems(1) False sc by (simp add: Let_def)
    have mono: "set (map (\<lambda>pw. fst (lhaIDs pw)) pdfs) \<subseteq> set (map (\<lambda>pw. fst (lhaIDs pw)) pdfs2)"
      using scan_starts[OF sc] by simp
    have "pdfChoiceOf (preferredPDFLHAIDs' P) pdfs2 ?wc2"
    proof (cases "selectedGroup (preferredPDFLHAIDs' P) pdfs2")
      case None
      then have "selectedGroup (preferredPDFLHAIDs' P) pdfs = None"
        using selectedGroup_None_mono[OF mono] by simp
      then show ?thesis using None Cons.prems(2)
        by (simp add: pdfChoiceOf_def pdfVariations_selected scaleVariations_pdf)
    next
      case (Some pw)
      then show ?thesis by (simp add: pdfChoiceOf_def pdfVariations_selected)
    qed
    from Cons.IH[OF run this] show ?thesis .
  qed
qed


lemma find_no_key: "find (\<lambda>x. False) xs = None"
  by (induction xs) auto

text \<open>
  Claim C2. The loops over the preferred LHA IDs and over the collected groups copy the
  identifiers of the group that the spec selects: the first group starting at the first
  preferred ID at which a group starts. With the preferred IDs \<open>A, B, C\<close> and groups that
  start at \<open>B\<close> and \<open>C\<close> only, that is the first group starting at \<open>B\<close>. Where no group
  starts at a preferred ID the weight choice is left as it is. For a whole run: the PDF
  identifiers that \<^verbatim>\<open>globalBeginRun\<close> returns are those of the group selected among the
  groups collected from the headers, and the PDF fields are empty when none is selected.
\<close>

theorem C2_pdf_selection:
  "(selectedGroup preferred groups = Some pw \<longrightarrow>
      pdfWeightIDs (pdfVariations preferred groups wc) = wids pw)
   \<and> (selectedGroup preferred groups = None \<longrightarrow> pdfVariations preferred groups wc = wc)
   \<and> (A \<noteq> B \<and> A \<noteq> C \<and> set (map (\<lambda>pw. fst (lhaIDs pw)) groups) \<subseteq> {B, C}
        \<and> find (\<lambda>pw. fst (lhaIDs pw) = B) groups = Some pwB \<longrightarrow>
      pdfWeightIDs (pdfVariations [A, B, C] groups wc) = wids pwB)
   \<and> (globalBeginRun ops P (Some headers) fl = Inr (wc1, fl1) \<longrightarrow>
      (\<exists>svs pdfs. headersLoop ops P headers (([], []), DynamicWeightChoice_new)
                     = Inr ((svs, pdfs), wc1)
         \<and> pdfChoiceOf (preferredPDFLHAIDs' P) pdfs wc1))"
proof -
  have a: "selectedGroup preferred groups = Some pw \<longrightarrow>
      pdfWeightIDs (pdfVariations preferred groups wc) = wids pw"
    by (simp add: pdfVariations_selected)
  have b: "selectedGroup preferred groups = None \<longrightarrow> pdfVariations preferred groups wc = wc"
    by (simp add: pdfVariations_selected)
  have c: "pdfWeightIDs (pdfVariations [A, B, C] groups wc) = wids pwB"
    if "A \<noteq> B" "A \<noteq> C" "set (map (\<lambda>pw. fst (lhaIDs pw)) groups) \<subseteq> {B, C}"
      "find (\<lambda>pw. fst (lhaIDs pw) = B) groups = Some pwB"
  proof -
    have "A \<notin> set (map (\<lambda>pw. fst (lhaIDs pw)) groups)" using that by auto
    moreover have "B \<in> set (map (\<lambda>pw. fst (lhaIDs pw)) groups)"
      using that(4) find_start_None[of B groups] by auto
    ultimately have "selectedGroup [A, B, C] groups = Some pwB"
      using that(4) by (simp add: selectedGroup_def)
    then show ?thesis by (simp add: pdfVariations_selected)
  qed
  have d: "\<exists>svs pdfs. headersLoop ops P headers (([], []), DynamicWeightChoice_new)
                     = Inr ((svs, pdfs), wc1)
         \<and> pdfChoiceOf (preferredPDFLHAIDs' P) pdfs wc1"
    if run: "globalBeginRun ops P (Some headers) fl = Inr (wc1, fl1)"
  proof -
    from run obtain svs pdfs where
      h: "headersLoop ops P headers (([], []), DynamicWeightChoice_new) = Inr ((svs, pdfs), wc1)"
      by (auto simp: globalBeginRun_def exchange_def Let_def split: sum.splits)
    have "pdfChoiceOf (preferredPDFLHAIDs' P) [] DynamicWeightChoice_new"
      by (simp add: pdfChoiceOf_def selectedGroup_def DynamicWeightChoice_new_def find_no_key)
    from headersLoop_pdf[OF h this] h show ?thesis by blast
  qed
  from a b c d show ?thesis by blast
qed

theorem C2_pdf_selection_witness:
  "globalBeginRun digits_ops
     \<lparr>genTag' = ''generator'', lheLabel' = ''externalLHEProducer'',
      preferredPDFLHAIDs' = [260000, 292200, 306000],
      namedWeightIDs' = [], namedWeightLabels' = []\<rparr>
     (Some [\<lparr>tag = ''initrwgt'',
             lines = [opener ''hessian'' ''PDF_variation'', pdf_line ''2001'' ''306000'',
                      pdf_line ''2002'' ''306001'', pdf_line ''2003'' ''292200'', closer]\<rparr>])
     \<lparr>debug' = False, debugRun' = False, hasIssuedWarning' = False\<rparr>
   = Inr (\<lparr>scaleWeightIDs = [], scaleWeightsDoc = [], pdfWeightIDs = [''2003''],
           pdfWeightsDoc = ''292200 - 292200\<newline>n weights (w_var / w_nominal) for LHA IDs ''\<rparr>,
          \<lparr>debug' = False, debugRun' = False, hasIssuedWarning' = False\<rparr>)
   \<and> pdfWeightIDs
        (pdfVariations [260000, 292200, 306000]
           [\<lparr>wids = [''2001'', ''2002''], lhaIDs = (306000, 306001)\<rparr>,
            \<lparr>wids = [''2003''], lhaIDs = (292200, 292200)\<rparr>]
           DynamicWeightChoice_new) = [''2003'']
   \<and> pdfVariations [260000] 
           [\<lparr>wids = [''2001'', ''2002''], lhaIDs = (306000, 306001)\<rparr>,
            \<lparr>wids = [''2003''], lhaIDs = (292200, 292200)\<rparr>]
           DynamicWeightChoice_new = DynamicWeightChoice_new"
proof -
  let ?groups = "[\<lparr>wids = [''2001'', ''2002''], lhaIDs = (306000, 306001)\<rparr>,
            \<lparr>wids = [''2003''], lhaIDs = (292200::32 word, 292200::32 word)\<rparr>]"
  have run: "globalBeginRun digits_ops
     \<lparr>genTag' = ''generator'', lheLabel' = ''externalLHEProducer'',
      preferredPDFLHAIDs' = [260000, 292200, 306000],
      namedWeightIDs' = [], namedWeightLabels' = []\<rparr>
     (Some [\<lparr>tag = ''initrwgt'',
             lines = [opener ''hessian'' ''PDF_variation'', pdf_line ''2001'' ''306000'',
                      pdf_line ''2002'' ''306001'', pdf_line ''2003'' ''292200'', closer]\<rparr>])
     \<lparr>debug' = False, debugRun' = False, hasIssuedWarning' = False\<rparr>
   = Inr (\<lparr>scaleWeightIDs = [], scaleWeightsDoc = [], pdfWeightIDs = [''2003''],
           pdfWeightsDoc = ''292200 - 292200\<newline>n weights (w_var / w_nominal) for LHA IDs ''\<rparr>,
          \<lparr>debug' = False, debugRun' = False, hasIssuedWarning' = False\<rparr>)"
    by code_simp
  have n: "selectedGroup [260000] ?groups = None"
    by (simp add: selectedGroup_def)
  have f: "find (\<lambda>pw. fst (lhaIDs pw) = 292200) ?groups = Some \<lparr>wids = [''2003''], lhaIDs = (292200, 292200)\<rparr>"
    by simp
  from C2_pdf_selection[of "[260000]" ?groups _ DynamicWeightChoice_new 260000 292200 306000 "\<lparr>wids = [''2003''], lhaIDs = (292200, 292200)\<rparr>"] n f run
  show ?thesis by simp
qed

subsection \<open>A weight group that is not closed\<close>

lemma scan_at_opener:
  assumes c: "closer_line c" and l: "opener_line l"
  shows "scan ops lp (c # l # post) st = scan ops lp (l # post) st"
proof (cases st)
  case (Pair svs pdfs)
  show ?thesis
  proof (cases lp)
    case Outside
    then show ?thesis using c by (simp add: closer_line_def)
  next
    case InScale
    then show ?thesis using c l Pair by (simp add: closer_line_def opener_line_def)
  next
    case InPDF
    then show ?thesis using c l Pair by (simp add: closer_line_def opener_line_def)
  next
    case InOther
    then show ?thesis using c l by (simp add: closer_line_def opener_line_def)
  qed
qed

lemma scan_insert_closer:
  assumes c: "closer_line c" and l: "opener_line l"
  shows "scan ops lp (pre @ c # l # post) st = scan ops lp (pre @ l # post) st"
proof (induction pre arbitrary: lp st)
  case Nil
  show ?case using scan_at_opener[OF c l] by simp
next
  case (Cons x pre)
  have out: "scan ops Outside (x # pre @ c # l # post) s = scan ops Outside (x # pre @ l # post) s" for s
    by (simp add: Cons.IH split: option.splits)
  obtain svs pdfs where st: "st = (svs, pdfs)" by (cases st)
  show ?case
  proof (cases lp)
    case Outside
    then show ?thesis by (simp only: append_Cons out)
  next
    case InScale
    then show ?thesis unfolding st
      by (auto simp add: Cons.IH out simp del: scan.simps(2) split: option.splits sum.splits)
  next
    case InPDF
    then show ?thesis unfolding st
      by (auto simp add: Cons.IH out simp del: scan.simps(2) split: option.splits sum.splits)
  next
    case InOther
    then show ?thesis
      by (auto simp add: Cons.IH out simp del: scan.simps(2))
  qed
qed

lemma headersLoop_insert_closer:
  assumes c: "closer_line c" and l: "opener_line l"
  shows "headersLoop ops P (hs1 @ h\<lparr>lines := pre @ c # l # post\<rparr> # hs2) acc
       = headersLoop ops P (hs1 @ h\<lparr>lines := pre @ l # post\<rparr> # hs2) acc"
proof (induction hs1 arbitrary: acc)
  case Nil
  obtain st wc where "acc = (st, wc)" by (cases acc)
  then show ?case by (simp add: scan_insert_closer[OF c l])
next
  case (Cons a hs1)
  obtain st wc where "acc = (st, wc)" by (cases acc)
  then show ?case by (simp add: Cons.IH Let_def split: sum.splits prod.splits)
qed

text \<open>
  Claim C6. Take any run headers and, in one of them, an opening line \<open>l\<close> of a weight
  group. Parsing the headers as they are (the group before \<open>l\<close>, if one is open, was not
  closed) and parsing them with a closing line \<open>c\<close> put before \<open>l\<close> give the same result:
  the same weight choice, and an exception in the one only where the other throws it
  too. In particular the headers without the closing line parse without an exception
  whenever those with it do.
\<close>

theorem C6_implicit_close:
  assumes "closer_line c" and "opener_line l"
  shows "globalBeginRun ops P (Some (hs1 @ h\<lparr>lines := pre @ l # post\<rparr> # hs2)) fl
           = globalBeginRun ops P (Some (hs1 @ h\<lparr>lines := pre @ c # l # post\<rparr> # hs2)) fl
       \<and> (\<forall>wc fl1. globalBeginRun ops P (Some (hs1 @ h\<lparr>lines := pre @ c # l # post\<rparr> # hs2)) fl
                      = Inr (wc, fl1) \<longrightarrow>
             globalBeginRun ops P (Some (hs1 @ h\<lparr>lines := pre @ l # post\<rparr> # hs2)) fl
                      = Inr (wc, fl1))"
  by (simp add: globalBeginRun_def headersLoop_insert_closer[OF assms])

theorem C6_implicit_close_witness:
  "closer_line closer \<and> opener_line (opener ''hessian'' ''PDF_variation'')
   \<and> globalBeginRun digits_ops
     \<lparr>genTag' = ''generator'', lheLabel' = ''externalLHEProducer'',
      preferredPDFLHAIDs' = [260000], namedWeightIDs' = [], namedWeightLabels' = []\<rparr>
     (Some [\<lparr>tag = ''initrwgt'',
             lines = [opener ''envelope'' ''scale_variation'', scale_line ''1'' ''1'' ''1'',
                      opener ''hessian'' ''PDF_variation'', pdf_line ''2'' ''260000'',
                      closer]\<rparr>])
     \<lparr>debug' = False, debugRun' = False, hasIssuedWarning' = False\<rparr>
   = Inr (\<lparr>scaleWeightIDs = [''1''],
           scaleWeightsDoc = ''[0] is muR=1 muF=1  weights (w_var / w_nominal); '',
           pdfWeightIDs = [''2''],
           pdfWeightsDoc = ''260000 - 260000\<newline>n weights (w_var / w_nominal) for LHA IDs ''\<rparr>,
          \<lparr>debug' = False, debugRun' = False, hasIssuedWarning' = False\<rparr>)
   \<and> globalBeginRun digits_ops
     \<lparr>genTag' = ''generator'', lheLabel' = ''externalLHEProducer'',
      preferredPDFLHAIDs' = [260000], namedWeightIDs' = [], namedWeightLabels' = []\<rparr>
     (Some [\<lparr>tag = ''initrwgt'',
             lines = [opener ''envelope'' ''scale_variation'', scale_line ''1'' ''1'' ''1'',
                      closer,
                      opener ''hessian'' ''PDF_variation'', pdf_line ''2'' ''260000'',
                      closer]\<rparr>])
     \<lparr>debug' = False, debugRun' = False, hasIssuedWarning' = False\<rparr>
   = Inr (\<lparr>scaleWeightIDs = [''1''],
           scaleWeightsDoc = ''[0] is muR=1 muF=1  weights (w_var / w_nominal); '',
           pdfWeightIDs = [''2''],
           pdfWeightsDoc = ''260000 - 260000\<newline>n weights (w_var / w_nominal) for LHA IDs ''\<rparr>,
          \<lparr>debug' = False, debugRun' = False, hasIssuedWarning' = False\<rparr>)"
proof -
  let ?P = "\<lparr>genTag' = ''generator'', lheLabel' = ''externalLHEProducer'',
      preferredPDFLHAIDs' = [260000], namedWeightIDs' = [], namedWeightLabels' = []\<rparr>"
  let ?fl = "\<lparr>debug' = False, debugRun' = False, hasIssuedWarning' = False\<rparr>"
  have c: "closer_line closer"
    by code_simp
  have l: "opener_line (opener ''hessian'' ''PDF_variation'')"
    by code_simp
  have good: "globalBeginRun digits_ops ?P
     (Some [\<lparr>tag = ''initrwgt'',
             lines = [opener ''envelope'' ''scale_variation'', scale_line ''1'' ''1'' ''1'',
                      closer,
                      opener ''hessian'' ''PDF_variation'', pdf_line ''2'' ''260000'',
                      closer]\<rparr>]) ?fl
   = Inr (\<lparr>scaleWeightIDs = [''1''],
           scaleWeightsDoc = ''[0] is muR=1 muF=1  weights (w_var / w_nominal); '',
           pdfWeightIDs = [''2''],
           pdfWeightsDoc = ''260000 - 260000\<newline>n weights (w_var / w_nominal) for LHA IDs ''\<rparr>,
          ?fl)"
    by code_simp
  from C6_implicit_close[OF c l, where ops = digits_ops and P = ?P and ?hs1.0 = "[]"
         and h = "\<lparr>tag = ''initrwgt'', lines = []\<rparr>"
         and pre = "[opener ''envelope'' ''scale_variation'', scale_line ''1'' ''1'' ''1'']"
         and post = "[pdf_line ''2'' ''260000'', closer]" and ?hs2.0 = "[]" and fl = ?fl]
       good c l
  show ?thesis by simp
qed


subsection \<open>The documentation of the scale weights\<close>

lemma put_overwritten: "put s (overwritten init w) = overwritten init (w @ s)"
  by (simp add: put_def overwritten_def add.commute)

lemma scaleLoop_overwrites:
  "scaleLoop isw svs (overwritten init w, wc) =
     (overwritten init (w @ doc_items isw (map label svs)),
      wc\<lparr>scaleWeightIDs := scaleWeightIDs wc @ map wid svs\<rparr>)"
proof (induction svs arbitrary: isw w wc)
  case Nil
  then show ?case by simp
next
  case (Cons sw svs)
  show ?case
    by (cases "isw = 0") (simp_all add: Let_def put_overwritten Cons.IH)
qed

lemma scaleVariations_overwrites:
  "scaleVariations svs wc =
     (if svs = [] then wc
      else wc\<lparr>scaleWeightIDs := scaleWeightIDs wc @ map wid svs,
               scaleWeightsDoc :=
                 doc_items 0 (map label svs)
                   @ drop (length (doc_items 0 (map label svs)))
                       ''LHE scale variation weights (w_var / w_nominal); ''\<rparr>)"
proof -
  have e: "stringstream_new ''LHE scale variation weights (w_var / w_nominal); ''
          = overwritten ''LHE scale variation weights (w_var / w_nominal); '' []"
    by (simp add: stringstream_new_def overwritten_def)
  show ?thesis
    unfolding scaleVariations_def e scaleLoop_overwrites
    by (simp add: str_def overwritten_def)
qed

text \<open>
  Claim C3, at an input where the code departs from it: one \<^verbatim>\<open>initrwgt\<close> header with a
  scale group of the weights 1002 (\<open>muR=2 muF=2\<close>) and 1001 (\<open>muR=1 muF=1\<close>). The
  identifiers come out in the sorted order, and the labels in the documentation string
  too; but the string does not begin with
  \<open>LHE scale variation weights (w_var / w_nominal); \<close> as the claim says: the text
  written to the stream has replaced that beginning, of which the last nine characters
  are left at the end.
\<close>

theorem C3_scale_doc_overwritten:
  "globalBeginRun digits_ops
     \<lparr>genTag' = ''generator'', lheLabel' = ''externalLHEProducer'', preferredPDFLHAIDs' = [],
      namedWeightIDs' = [], namedWeightLabels' = []\<rparr>
     (Some [\<lparr>tag = ''initrwgt'',
             lines = [opener ''envelope'' ''scale_variation'', scale_line ''1002'' ''2'' ''2'',
                      scale_line ''1001'' ''1'' ''1'', closer]\<rparr>])
     \<lparr>debug' = False, debugRun' = False, hasIssuedWarning' = False\<rparr>
   = Inr (\<lparr>scaleWeightIDs = [''1001'', ''1002''],
           scaleWeightsDoc = ''[0] is muR=1 muF=1 ; [1] is muR=2 muF=2 ominal); '',
           pdfWeightIDs = [], pdfWeightsDoc = []\<rparr>,
          \<lparr>debug' = False, debugRun' = False, hasIssuedWarning' = False\<rparr>)
   \<and> claimed_scaleWeightsDoc [''muR=1 muF=1 '', ''muR=2 muF=2 '']
       = ''LHE scale variation weights (w_var / w_nominal); [0] is muR=1 muF=1 ; [1] is muR=2 muF=2 ''"
  by code_simp

end
